theory Spec2Isabelle
  imports Main "HOL-Library.Word" "HOL-Library.Sublist"
begin

unbundle bit_operations_syntax

section \<open>C strings and the C library\<close>

text \<open>
  A \<open>char *\<close> is a \<open>string option\<close>: \<open>None\<close> is the NULL pointer, \<open>Some s\<close> points at the
  characters \<open>s\<close>, followed by the terminating NUL. The library functions below stop at the
  first NUL they read, so only \<open>c_str s\<close>, the characters before the first NUL, is visible
  to them.
\<close>

definition CR :: char where "CR = CHR 0x0D"
definition LF :: char where "LF = CHR 0x0A"
definition CRLF :: string where "CRLF = [CHR 0x0D, CHR 0x0A]"

definition c_str :: "string \<Rightarrow> string" where
  "c_str s = takeWhile (\<lambda>c. c \<noteq> CHR 0x00) s"

definition strlen :: "string \<Rightarrow> nat" where
  "strlen s = length (c_str s)"

text \<open>The character a pointer reads: the terminator once the characters are used up.\<close>

fun char_at0 :: "string \<Rightarrow> char" where
  "char_at0 [] = CHR 0x00"
| "char_at0 (c # cs) = c"

text \<open>\<open>tolower\<close> of the C locale: the 26 capital letters map to their small letters.\<close>

definition tolower :: "char \<Rightarrow> char" where
  "tolower c =
     (case map_of (zip ''ABCDEFGHIJKLMNOPQRSTUVWXYZ'' ''abcdefghijklmnopqrstuvwxyz'') c of
        Some l \<Rightarrow> l
      | None \<Rightarrow> c)"

text \<open>
  \<open>strncasecmp s1 s2 n\<close>: compares at most \<open>n\<close> characters, ignoring case, and stops after
  a NUL. The result is the difference of the first pair of characters that differ, 0 when
  there is none.
\<close>

fun strncasecmp :: "string \<Rightarrow> string \<Rightarrow> nat \<Rightarrow> int" where
  "strncasecmp s1 s2 0 = 0"
| "strncasecmp s1 s2 (Suc n) =
     (let c1 = tolower (char_at0 s1); c2 = tolower (char_at0 s2)
      in if c1 \<noteq> c2 then of_char c1 - of_char c2
         else if c2 = CHR 0x00 then 0
         else strncasecmp (tl s1) (tl s2) n)"

section \<open>util_strings: length used by the token comparisons\<close>

text \<open>
  Modelled from the spec: \<open>get_longest_str_length\<close> is defined in util_strings.c, which is
  not part of the sources at hand. The spec (4.1) gives the length it returns: the greater
  of the lengths of the two strings, capped at the maximum passed as third argument.
\<close>

definition get_longest_str_length :: "string \<Rightarrow> string \<Rightarrow> nat \<Rightarrow> nat" where
  "get_longest_str_length s1 s2 max_length = min max_length (max (strlen s1) (strlen s2))"

section \<open>gpio.c: the pin and port tables\<close>

datatype GPIO_pinnum =
    PIN0 | PIN1 | PIN2 | PIN3 | PIN4 | PIN5 | PIN6 | PIN7
  | PIN8 | PIN9 | PIN10 | PIN11 | PIN12 | PIN13 | PIN14 | PIN15
  | NO_GPIO_PIN

text \<open>
  The register blocks of the GPIO ports. A \<open>GPIO_TypeDef *\<close> is a \<open>GPIO_TypeDef option\<close>,
  \<open>None\<close> being NULL.
\<close>

datatype GPIO_TypeDef = GPIOA | GPIOB | GPIOC | GPIOD | GPIOE | GPIOF | GPIOG | GPIOH | GPIOI

definition gpio_pinmap :: "(string \<times> GPIO_pinnum) list" where
  "gpio_pinmap =
     [(''pin0'', PIN0), (''pin1'', PIN1), (''pin2'', PIN2), (''pin3'', PIN3),
      (''pin4'', PIN4), (''pin5'', PIN5), (''pin6'', PIN6), (''pin7'', PIN7),
      (''pin8'', PIN8), (''pin9'', PIN9), (''pin10'', PIN10), (''pin11'', PIN11),
      (''pin12'', PIN12), (''pin13'', PIN13), (''pin14'', PIN14), (''pin15'', PIN15)]"

definition gpio_portmap :: "(string \<times> GPIO_TypeDef) list" where
  "gpio_portmap =
     [(''porta'', GPIOA), (''portb'', GPIOB), (''portc'', GPIOC), (''portd'', GPIOD),
      (''porte'', GPIOE), (''portf'', GPIOF), (''portg'', GPIOG), (''porth'', GPIOH),
      (''porti'', GPIOI)]"

text \<open>
  \<open>chDbgAssert\<close> stops the system when its condition is false, \<open>token_match\<close> signals a
  fatal violation of its precondition when it is handed NULL, and a C library function
  that is handed NULL reads through it: a function where one of these can happen returns
  \<open>Inl\<close> of what stopped it (the panic with the message of the assertion, the violated
  precondition, or the read through NULL) instead of a value. In gpio.c no call to the
  operating system or to a driver comes before a point where a function can stop, so
  nothing is lost with the calls that \<open>Inl\<close> does not carry.
\<close>

datatype halt = DbgPanic string | PreconditionViolation | NullPointerRead

text \<open>
  The loop of \<open>string_to_pinnum\<close> over the entries of \<open>gpio_pinmap\<close> that are left. The
  constant \<open>MAX_PIN_STR_LEN\<close> is declared in gpio.h, which is not part of the sources at
  hand: it is the first parameter.
\<close>

fun string_to_pinnum_loop ::
  "nat \<Rightarrow> (string \<times> GPIO_pinnum) list \<Rightarrow> string option \<Rightarrow> halt + GPIO_pinnum" where
  "string_to_pinnum_loop MAX_PIN_STR_LEN [] pinstr = Inr NO_GPIO_PIN"
| "string_to_pinnum_loop MAX_PIN_STR_LEN ((pinstring, pinnum) # rest) pinstr =
     (case pinstr of
        None \<Rightarrow> Inl (DbgPanic ''string_to_pinnum() #1'')
      | Some s \<Rightarrow>
          (let maxlen = get_longest_str_length pinstring s MAX_PIN_STR_LEN
           in if strncasecmp pinstring s maxlen = 0 then Inr pinnum
              else string_to_pinnum_loop MAX_PIN_STR_LEN rest pinstr))"

definition string_to_pinnum :: "nat \<Rightarrow> string option \<Rightarrow> halt + GPIO_pinnum" where
  "string_to_pinnum MAX_PIN_STR_LEN pinstr =
     string_to_pinnum_loop MAX_PIN_STR_LEN gpio_pinmap pinstr"

fun string_to_gpioport_loop ::
  "nat \<Rightarrow> (string \<times> GPIO_TypeDef) list \<Rightarrow> string option \<Rightarrow> halt + GPIO_TypeDef option" where
  "string_to_gpioport_loop MAX_PIN_STR_LEN [] portstr = Inr None"
| "string_to_gpioport_loop MAX_PIN_STR_LEN ((portstring, portptr) # rest) portstr =
     (case portstr of
        None \<Rightarrow> Inl (DbgPanic ''string_to_gpioport() #1'')
      | Some s \<Rightarrow>
          (let maxlen = get_longest_str_length portstring s MAX_PIN_STR_LEN
           in if strncasecmp portstring s maxlen = 0 then Inr (Some portptr)
              else string_to_gpioport_loop MAX_PIN_STR_LEN rest portstr))"

definition string_to_gpioport :: "nat \<Rightarrow> string option \<Rightarrow> halt + GPIO_TypeDef option" where
  "string_to_gpioport MAX_PIN_STR_LEN portstr =
     string_to_gpioport_loop MAX_PIN_STR_LEN gpio_portmap portstr"

section \<open>chprintf: the text of a formatted print\<close>

text \<open>
  \<open>chprintf\<close> and \<open>chvprintf\<close> belong to the operating system, not to this firmware. The
  model renders a template the way the system's function reads it: after \<open>%\<close> an
  optional \<open>-\<close>, an optional \<open>0\<close>, a decimal width, an optional precision, an optional
  \<open>l\<close>, and one of the conversions \<open>c s d i u x X o\<close>; any other character after \<open>%\<close>
  is printed as it is. Hexadecimal digits are capitals for \<open>x\<close> and \<open>X\<close> alike. Widths
  given as \<open>*\<close> and the conversion \<open>f\<close> are not modelled. An integer argument is the
  32-bit value that travels through the variable argument list.
\<close>

datatype arg = ArgStr "string option" | ArgInt "32 word"

definition isdigit :: "char \<Rightarrow> bool" where
  "isdigit c = (c \<in> set ''0123456789'')"

definition digit_val :: "char \<Rightarrow> nat" where
  "digit_val c = length (takeWhile (\<lambda>d. d \<noteq> tolower c) ''0123456789abcdef'')"

definition dec_val :: "string \<Rightarrow> nat" where
  "dec_val ds = foldl (\<lambda>a c. a * 10 + digit_val c) 0 ds"

definition digit_char :: "nat \<Rightarrow> char" where
  "digit_char d = ''0123456789ABCDEF'' ! d"

function ltoa :: "nat \<Rightarrow> nat \<Rightarrow> string" where
  "ltoa num radix =
     (if radix < 2 \<or> 16 < radix then []
      else if num < radix then [digit_char num]
      else ltoa (num div radix) radix @ [digit_char (num mod radix)])"
  by pat_completeness auto
termination
  by (relation "measure fst") auto

declare ltoa.simps [simp del]

definition fill :: "bool \<Rightarrow> char \<Rightarrow> nat \<Rightarrow> string \<Rightarrow> string" where
  "fill left_align filler width s =
     (let n = width - length s
      in if left_align then s @ replicate n filler
         else if filler = CHR ''0'' \<and> char_at0 s = CHR ''-''
           then CHR ''-'' # replicate n filler @ tl s
         else replicate n filler @ s)"

text \<open>
  One conversion: the characters it prints before filling, the filler it allows, and the
  arguments that are left. A conversion whose argument is missing or of the other kind
  is not defined by C; the model prints nothing for it.
\<close>

definition conversion :: "char \<Rightarrow> char \<Rightarrow> nat \<Rightarrow> arg list \<Rightarrow> string \<times> char \<times> arg list" where
  "conversion c filler precision args =
     (if c = CHR ''c'' then
        (case args of
           ArgInt w # rest \<Rightarrow> ([char_of (unat w)], CHR '' '', rest)
         | _ \<Rightarrow> ([], CHR '' '', tl args))
      else if c = CHR ''s'' then
        (case args of
           ArgStr p # rest \<Rightarrow>
             (let s = (case p of None \<Rightarrow> ''(null)'' | Some t \<Rightarrow> c_str t)
              in (if precision = 0 then s else take precision s, CHR '' '', rest))
         | _ \<Rightarrow> ([], CHR '' '', tl args))
      else if c \<in> set ''dDiI'' then
        (case args of
           ArgInt w # rest \<Rightarrow>
             ((if sint w < 0 then CHR ''-'' # ltoa (nat (- sint w)) 10 else ltoa (nat (sint w)) 10),
              filler, rest)
         | _ \<Rightarrow> ([], filler, tl args))
      else if c \<in> set ''xXuUoO'' then
        (case args of
           ArgInt w # rest \<Rightarrow>
             (ltoa (unat w) (if c \<in> set ''xX'' then 16 else if c \<in> set ''uU'' then 10 else 8),
              filler, rest)
         | _ \<Rightarrow> ([], filler, tl args))
      else ([c], filler, args))"

text \<open>
  One directive, read from the characters after the \<open>%\<close>: the text it prints, the number
  of template characters it uses, and the arguments that are left. A template that ends
  inside a directive prints nothing for it.
\<close>

definition directive :: "string \<Rightarrow> arg list \<Rightarrow> string \<times> nat \<times> arg list" where
  "directive f args =
     (let left_align = (char_at0 f = CHR ''-'');
          f1 = (if left_align then tl f else f);
          zero = (char_at0 f1 = CHR ''0'');
          f2 = (if zero then tl f1 else f1);
          width = dec_val (takeWhile isdigit f2);
          f3 = dropWhile isdigit f2;
          dot = (char_at0 f3 = CHR ''.'');
          precision = (if dot then dec_val (takeWhile isdigit (tl f3)) else 0);
          f4 = (if dot then dropWhile isdigit (tl f3) else f3);
          is_long = (char_at0 f4 \<in> set ''lL'');
          f5 = (if is_long \<and> tl f4 \<noteq> [] then tl f4 else f4)
      in case f5 of
           [] \<Rightarrow> ([], length f, args)
         | c # f6 \<Rightarrow>
             (case conversion c (if zero then CHR ''0'' else CHR '' '') precision args of
                (s, filler, args') \<Rightarrow>
                  (fill left_align filler width s, length f - length f6, args')))"

text \<open>The text printed for the characters of a template (those before its NUL).\<close>

function chvprintf_text :: "string \<Rightarrow> arg list \<Rightarrow> string" where
  "chvprintf_text [] args = []"
| "chvprintf_text (c # fmt) args =
     (if c \<noteq> CHR ''%'' then c # chvprintf_text fmt args
      else (case directive fmt args of
              (out, used, args') \<Rightarrow> out @ chvprintf_text (drop used fmt) args'))"
  by pat_completeness auto
termination
  by (relation "measure (\<lambda>(fmt, args). length fmt)") auto

section \<open>The calls the firmware makes to the operating system\<close>

text \<open>
  A stream is known by a number; a \<open>BaseSequentialStream *\<close> is a
  \<open>BaseSequentialStream option\<close>, \<open>None\<close> being NULL.
\<close>

type_synonym BaseSequentialStream = nat

text \<open>Arguments of the debug macros of gpio.c.\<close>

datatype macro_arg =
    MPin GPIO_pinnum
  | MPort "GPIO_TypeDef option"
  | MGPIOA_BASE
  | MInt "32 word"

record DACConfig =
  init :: "16 word"
  datamode :: nat

record SPIConfig =
  end_cb :: "nat option"
  ssport :: "GPIO_TypeDef option"
  sspad :: nat
  cr1 :: "16 word"

text \<open>
  Every function of the model returns the calls it makes to the operating system and to
  the drivers, in order: the waits and signals on \<open>mshell_io_sem\<close>, the prints (the stream
  pointer and the text printed), the pad operations, the uses of the debug macros
  \<open>DBG_MSG\<close> and \<open>DBG_VMSG\<close> (declared in a header that is not part of the sources at
  hand), and the calls to the SPI and DAC drivers.
\<close>

datatype event =
    ChBSemWait
  | ChBSemSignal
  | Chprintf "BaseSequentialStream option" string
  | PalReadPad GPIO_TypeDef GPIO_pinnum
  | PalSetPad GPIO_TypeDef GPIO_pinnum
  | PalClearPad GPIO_TypeDef GPIO_pinnum
  | PalSetPadMode GPIO_TypeDef GPIO_pinnum "32 word"
  | DBG_MSG "BaseSequentialStream option" string
  | DBG_VMSG "BaseSequentialStream option" string "macro_arg list"
  | DacStart DACConfig
  | SpiStart SPIConfig
  | DacPutChannelX nat "16 word"
  | SpiSelect
  | SpiSend nat "8 word list"
  | SpiUnselect

definition chprintf :: "BaseSequentialStream option \<Rightarrow> string \<Rightarrow> arg list \<Rightarrow> event list" where
  "chprintf chp fmt args = [Chprintf chp (chvprintf_text (c_str fmt) args)]"

definition chvprintf :: "BaseSequentialStream option \<Rightarrow> string \<Rightarrow> arg list \<Rightarrow> event list" where
  "chvprintf chp fmt args = [Chprintf chp (chvprintf_text (c_str fmt) args)]"

section \<open>util_messages.c\<close>

text \<open>The character \<open>str[i]\<close> of a C string: the terminator behind its last character.\<close>

definition c_at :: "string \<Rightarrow> nat \<Rightarrow> char" where
  "c_at s i = (if i < length (c_str s) then s ! i else CHR 0x00)"

definition needs_newline :: "string option \<Rightarrow> bool" where
  "needs_newline str =
     (case str of
        None \<Rightarrow> True
      | Some s \<Rightarrow>
          if c_at s 0 = CHR 0x00 then True
          else (let end = strlen s - 1
                in \<not> (c_at s end = LF \<or> c_at s end = CR)))"

definition util_message_begin :: "BaseSequentialStream option \<Rightarrow> event list" where
  "util_message_begin chp =
     [ChBSemWait] @ chprintf chp (''BEGIN:'' @ CRLF) [] @ [ChBSemSignal]"

definition util_message_end :: "BaseSequentialStream option \<Rightarrow> bool \<Rightarrow> event list" where
  "util_message_end chp success =
     [ChBSemWait]
     @ (if success then chprintf chp (''END:OK'' @ CRLF) []
        else chprintf chp (''END:ERROR'' @ CRLF) [])
     @ [ChBSemSignal]"

definition util_message_debug ::
  "BaseSequentialStream option \<Rightarrow> string option \<Rightarrow> 32 word \<Rightarrow> string option \<Rightarrow>
   string option \<Rightarrow> arg list \<Rightarrow> event list" where
  "util_message_debug chp file line func fmt args =
     (if fmt = None \<or> file = None \<or> func = None \<or> chp = None then []
      else
        [ChBSemWait]
        @ chprintf chp ''?:%s:%d:%s:'' [ArgStr file, ArgInt line, ArgStr func]
        @ (case fmt of None \<Rightarrow> [] | Some f \<Rightarrow> chvprintf chp f args)
        @ (if needs_newline fmt then chprintf chp CRLF [] else [])
        @ [ChBSemSignal])"

definition util_message_info ::
  "BaseSequentialStream option \<Rightarrow> string option \<Rightarrow> arg list \<Rightarrow> event list" where
  "util_message_info chp fmt args =
     (if chp = None \<or> fmt = None then []
      else
        [ChBSemWait]
        @ chprintf chp ''#:'' []
        @ (case fmt of None \<Rightarrow> [] | Some f \<Rightarrow> chvprintf chp f args)
        @ (if needs_newline fmt then chprintf chp CRLF [] else [])
        @ [ChBSemSignal])"

definition util_message_warning ::
  "BaseSequentialStream option \<Rightarrow> string option \<Rightarrow> arg list \<Rightarrow> event list" where
  "util_message_warning chp fmt args =
     (if chp = None \<or> fmt = None then []
      else
        [ChBSemWait]
        @ chprintf chp ''W:'' []
        @ (case fmt of None \<Rightarrow> [] | Some f \<Rightarrow> chvprintf chp f args)
        @ (if needs_newline fmt then chprintf chp CRLF [] else [])
        @ [ChBSemSignal])"

definition util_message_error ::
  "BaseSequentialStream option \<Rightarrow> string option \<Rightarrow> arg list \<Rightarrow> event list" where
  "util_message_error chp fmt args =
     (if chp = None \<or> fmt = None then []
      else
        [ChBSemWait]
        @ chprintf chp ''E:'' []
        @ (case fmt of None \<Rightarrow> [] | Some f \<Rightarrow> chvprintf chp f args)
        @ (if needs_newline fmt then chprintf chp CRLF [] else [])
        @ [ChBSemSignal])"

definition util_message_bool ::
  "BaseSequentialStream option \<Rightarrow> string option \<Rightarrow> bool \<Rightarrow> event list" where
  "util_message_bool chp name data =
     (if chp = None then []
      else
        [ChBSemWait]
        @ (if data then chprintf chp (''B:%s:true'' @ CRLF) [ArgStr name]
           else chprintf chp (''B:%s:false'' @ CRLF) [ArgStr name])
        @ [ChBSemSignal])"

definition util_message_string ::
  "BaseSequentialStream option \<Rightarrow> string option \<Rightarrow> string option \<Rightarrow> arg list \<Rightarrow>
   event list" where
  "util_message_string chp name fmt args =
     (if chp = None \<or> fmt = None then []
      else
        [ChBSemWait]
        @ chprintf chp ''S:%s:'' [ArgStr name]
        @ (case fmt of None \<Rightarrow> [] | Some f \<Rightarrow> chvprintf chp f args)
        @ (if needs_newline fmt then chprintf chp CRLF [] else [])
        @ [ChBSemSignal])"

text \<open>
  The arrays the emission functions print are lists, read by index or through a pointer
  that moves on; \<open>count\<close> is the number of elements the caller announces. What lies
  behind the last element of an array is not modelled: a read there gives \<open>dflt\<close>.
\<close>

definition elem :: "'a \<Rightarrow> 'a list \<Rightarrow> nat \<Rightarrow> 'a" where
  "elem dflt xs i = (if i < length xs then xs ! i else dflt)"

text \<open>
  The loop \<open>for (i = 0; i < count; i++)\<close> of \<open>util_message_string_array\<close> and
  \<open>util_message_double\<close>, with \<open>n\<close> the rounds that are left: \<open>i = count - n\<close>.
\<close>

fun string_array_loop ::
  "BaseSequentialStream option \<Rightarrow> string option list \<Rightarrow> nat \<Rightarrow> nat \<Rightarrow> event list" where
  "string_array_loop chp str_array count 0 = []"
| "string_array_loop chp str_array count (Suc n) =
     (let i = count - Suc n
      in chprintf chp ''%s'' [ArgStr (elem None str_array i)]
         @ (if i + 1 < count then chprintf chp '','' [] else [])
         @ string_array_loop chp str_array count n)"

definition util_message_string_array ::
  "BaseSequentialStream option \<Rightarrow> string option \<Rightarrow> string option list \<Rightarrow> nat \<Rightarrow>
   event list" where
  "util_message_string_array chp name str_array count =
     (if chp = None then []
      else
        [ChBSemWait]
        @ chprintf chp ''SA:%s:'' [ArgStr name]
        @ string_array_loop chp str_array count count
        @ chprintf chp CRLF []
        @ [ChBSemSignal])"

text \<open>
  A \<open>double\<close> is a value of any type \<open>'d\<close>, and the text \<open>%f\<close> prints for it is the
  parameter \<open>fmt_f\<close>: floating point is not modelled.
\<close>

fun double_loop ::
  "('d \<Rightarrow> string) \<Rightarrow> 'd \<Rightarrow> BaseSequentialStream option \<Rightarrow> 'd list \<Rightarrow> nat \<Rightarrow> nat \<Rightarrow>
   event list" where
  "double_loop fmt_f dflt chp data count 0 = []"
| "double_loop fmt_f dflt chp data count (Suc n) =
     (let i = count - Suc n
      in [Chprintf chp (fmt_f (elem dflt data i))]
         @ (if i + 1 < count then chprintf chp '','' [] else [])
         @ double_loop fmt_f dflt chp data count n)"

definition util_message_double ::
  "('d \<Rightarrow> string) \<Rightarrow> 'd \<Rightarrow> BaseSequentialStream option \<Rightarrow> string option \<Rightarrow> 'd list \<Rightarrow>
   nat \<Rightarrow> event list" where
  "util_message_double fmt_f dflt chp name data count =
     (if chp = None then []
      else
        [ChBSemWait]
        @ chprintf chp ''F:%s:'' [ArgStr name]
        @ double_loop fmt_f dflt chp data count count
        @ chprintf chp CRLF []
        @ [ChBSemSignal])"

text \<open>
  The loop \<open>for ( ; count > 0; count--)\<close> of the integer arrays: it prints \<open>*(data++)\<close>
  with the template \<open>fmt\<close>, and a comma while \<open>count > 1\<close>. The elements are given as
  the 32-bit values they are promoted to when they are passed to \<open>chprintf\<close>.
\<close>

fun int_array_loop ::
  "BaseSequentialStream option \<Rightarrow> string \<Rightarrow> 32 word list \<Rightarrow> nat \<Rightarrow> event list" where
  "int_array_loop chp fmt data 0 = []"
| "int_array_loop chp fmt data (Suc n) =
     chprintf chp fmt [ArgInt (elem 0 data 0)]
     @ (if Suc n > 1 then chprintf chp '','' [] else [])
     @ int_array_loop chp fmt (tl data) n"

definition util_message_int8 ::
  "BaseSequentialStream option \<Rightarrow> string option \<Rightarrow> 8 word list \<Rightarrow> nat \<Rightarrow> event list" where
  "util_message_int8 chp name data count =
     (if chp = None then []
      else
        [ChBSemWait]
        @ chprintf chp ''S8:%s:'' [ArgStr name]
        @ int_array_loop chp ''%d'' (map scast data) count
        @ chprintf chp CRLF []
        @ [ChBSemSignal])"

definition util_message_uint8 ::
  "BaseSequentialStream option \<Rightarrow> string option \<Rightarrow> 8 word list \<Rightarrow> nat \<Rightarrow> event list" where
  "util_message_uint8 chp name data count =
     (if chp = None then []
      else
        [ChBSemWait]
        @ chprintf chp ''U8:%s:'' [ArgStr name]
        @ int_array_loop chp ''%u'' (map ucast data) count
        @ chprintf chp CRLF []
        @ [ChBSemSignal])"

definition util_message_int16 ::
  "BaseSequentialStream option \<Rightarrow> string option \<Rightarrow> 16 word list \<Rightarrow> nat \<Rightarrow> event list" where
  "util_message_int16 chp name data count =
     (if chp = None then []
      else
        [ChBSemWait]
        @ chprintf chp ''S16:%s:'' [ArgStr name]
        @ int_array_loop chp ''%d'' (map scast data) count
        @ chprintf chp CRLF []
        @ [ChBSemSignal])"

definition util_message_uint16 ::
  "BaseSequentialStream option \<Rightarrow> string option \<Rightarrow> 16 word list \<Rightarrow> nat \<Rightarrow> event list" where
  "util_message_uint16 chp name data count =
     (if chp = None then []
      else
        [ChBSemWait]
        @ chprintf chp ''U16:%s:'' [ArgStr name]
        @ int_array_loop chp ''%u'' (map ucast data) count
        @ chprintf chp CRLF []
        @ [ChBSemSignal])"

definition util_message_int32 ::
  "BaseSequentialStream option \<Rightarrow> string option \<Rightarrow> 32 word list \<Rightarrow> nat \<Rightarrow> event list" where
  "util_message_int32 chp name data count =
     (if chp = None then []
      else
        [ChBSemWait]
        @ chprintf chp ''S32:%s:'' [ArgStr name]
        @ int_array_loop chp ''%d'' data count
        @ chprintf chp CRLF []
        @ [ChBSemSignal])"

definition util_message_uint32 ::
  "BaseSequentialStream option \<Rightarrow> string option \<Rightarrow> 32 word list \<Rightarrow> nat \<Rightarrow> event list" where
  "util_message_uint32 chp name data count =
     (if chp = None then []
      else
        [ChBSemWait]
        @ chprintf chp ''U32:%s:'' [ArgStr name]
        @ int_array_loop chp ''%d'' data count
        @ chprintf chp CRLF []
        @ [ChBSemSignal])"

definition util_message_hex_uint8 ::
  "BaseSequentialStream option \<Rightarrow> string option \<Rightarrow> 8 word list \<Rightarrow> nat \<Rightarrow> event list" where
  "util_message_hex_uint8 chp name data count =
     (if chp = None then []
      else
        [ChBSemWait]
        @ chprintf chp ''H8:%s:'' [ArgStr name]
        @ int_array_loop chp ''%02X'' (map ucast data) count
        @ chprintf chp CRLF []
        @ [ChBSemSignal])"

definition util_message_hex_uint16 ::
  "BaseSequentialStream option \<Rightarrow> string option \<Rightarrow> 16 word list \<Rightarrow> nat \<Rightarrow> event list" where
  "util_message_hex_uint16 chp name data count =
     (if chp = None then []
      else
        [ChBSemWait]
        @ chprintf chp ''H16:%s:'' [ArgStr name]
        @ int_array_loop chp ''%04X'' (map ucast data) count
        @ chprintf chp CRLF []
        @ [ChBSemSignal])"

definition util_message_hex_uint32 ::
  "BaseSequentialStream option \<Rightarrow> string option \<Rightarrow> 32 word list \<Rightarrow> nat \<Rightarrow> event list" where
  "util_message_hex_uint32 chp name data count =
     (if chp = None then []
      else
        [ChBSemWait]
        @ chprintf chp ''H32:%s:'' [ArgStr name]
        @ int_array_loop chp ''%08X'' data count
        @ chprintf chp CRLF []
        @ [ChBSemSignal])"

text \<open>What a list of calls leaves on the stream \<open>c\<close>, and its split into CRLF-terminated lines.\<close>

fun written :: "BaseSequentialStream \<Rightarrow> event list \<Rightarrow> string" where
  "written c [] = []"
| "written c (Chprintf chp s # es) = (if chp = Some c then s @ written c es else written c es)"
| "written c (e # es) = written c es"

text \<open>
  \<open>crlf_lines cur s\<close>: the lines of \<open>s\<close> that a CRLF ends, \<open>cur\<close> being the characters
  of the line that is open; characters after the last CRLF are an unfinished line, marked
  by \<open>None\<close>.
\<close>

fun crlf_lines :: "string \<Rightarrow> string \<Rightarrow> string option list" where
  "crlf_lines cur [] = (if cur = [] then [] else [None])"
| "crlf_lines cur [c] = [None]"
| "crlf_lines cur (c # d # s) =
     (if c = CHR 0x0D \<and> d = CHR 0x0A then Some cur # crlf_lines [] s
      else crlf_lines (cur @ [c]) (d # s))"

text \<open>
  The binary semaphore \<open>mshell_io_sem\<close> run over a list of calls, \<open>held\<close> telling whether
  it is taken: \<open>None\<close> when a wait meets the semaphore taken or a signal meets it free,
  else its state after the last call.
\<close>

fun gate :: "bool \<Rightarrow> event list \<Rightarrow> bool option" where
  "gate held [] = Some held"
| "gate held (ChBSemWait # es) = (if held then None else gate True es)"
| "gate held (ChBSemSignal # es) = (if held then gate False es else None)"
| "gate held (e # es) = gate held es"

section \<open>What gpio.c and fetch_dac.c take from headers and files that are absent\<close>

text \<open>
  The positions of the tokens in a command list and \<open>MAX_PIN_STR_LEN\<close> are declared in
  fetch_defs.h and gpio.h; \<open>TOKEN_MAX_LEN\<close> is the maximum that caps the comparisons
  of \<open>token_match\<close>. None of the values is known: they are parameters.
\<close>

record fetch_defs =
  ACTION :: nat
  PORT :: nat
  PIN :: nat
  DIRECTION :: nat
  SENSE :: nat
  FETCH_TOK_SUBCMD_0 :: nat
  MAX_PIN_STR_LEN :: nat
  TOKEN_MAX_LEN :: nat

text \<open>The constants of the hardware abstraction layer and of the board, as parameters.\<close>

record hal_defs =
  PAL_STM32_MODE_INPUT :: "32 word"
  PAL_STM32_MODE_OUTPUT :: "32 word"
  PAL_STM32_MODE_ANALOG :: "32 word"
  PAL_STM32_PUDR_FLOATING :: "32 word"
  PAL_STM32_PUDR_PULLUP :: "32 word"
  PAL_STM32_PUDR_PULLDOWN :: "32 word"
  DAC_DHRM_12BIT_RIGHT :: nat
  GPIOE_SPI4_NSS :: nat
  SPI_CR1_CPHA :: "16 word"

text \<open>The terminal sets of \<open>Fetch_terminals\<close> that gpio.c reads.\<close>

record Fetch_terminals =
  gpio_direction :: "string list"
  gpio_sense :: "string list"
  gpio_subcommandA :: "string list"
  port_subcommand :: "string list"
  pin_subcommand :: "string list"

text \<open>
  Modelled from the spec: \<open>token_match\<close> is defined in util_strings.c, which is not part
  of the sources at hand. The spec (4.1): the token is compared with the candidates in
  order, ignoring case, over the greater of the two lengths capped at a maximum; the
  result is the index of the first candidate that matches, or a value that is no index
  (here -1) when none does. A NULL token never matches: the check on it is signalled as
  a fatal precondition violation, and the function does not return (spec 4.1 and 7).
  \<open>i\<close> is the index of the first candidate of the list.
\<close>

fun token_match_from :: "nat \<Rightarrow> nat \<Rightarrow> string list \<Rightarrow> string \<Rightarrow> int" where
  "token_match_from max_length i [] chk_tok = - 1"
| "token_match_from max_length i (tok # toks) chk_tok =
     (if strncasecmp tok chk_tok (get_longest_str_length tok chk_tok max_length) = 0 then int i
      else token_match_from max_length (Suc i) toks chk_tok)"

definition token_match :: "nat \<Rightarrow> string list \<Rightarrow> string option \<Rightarrow> halt + int" where
  "token_match max_length tok_array chk_tok =
     (case chk_tok of
        None \<Rightarrow> Inl PreconditionViolation
      | Some t \<Rightarrow> Inr (token_match_from max_length 0 tok_array t))"

text \<open>
  Modelled from the spec: \<open>fetch_input_check\<close> is defined in fetch.c, which is not part
  of the sources at hand. The spec (4.4): it verifies that the token path has at least
  \<open>expected_depth\<close> populated slots and that the number of arguments is exactly
  \<open>expected_arg_count\<close>; on a mismatch it emits a diagnostic and returns failure. The
  spec does not give the wording of the diagnostics; nothing below depends on it.
\<close>

definition fetch_input_check ::
  "BaseSequentialStream option \<Rightarrow> (nat \<Rightarrow> string option) \<Rightarrow> nat \<Rightarrow> string list \<Rightarrow> nat \<Rightarrow>
   bool \<times> event list" where
  "fetch_input_check chp cmd_list expected_depth data_list expected_arg_count =
     (if list_ex (\<lambda>i. cmd_list i = None) [0..<expected_depth]
        then (False, util_message_error chp (Some ''missing command token'') [])
      else if length data_list \<noteq> expected_arg_count
        then (False, util_message_error chp (Some ''wrong number of arguments'') [])
      else (True, []))"

section \<open>gpio.c: the handlers\<close>

text \<open>
  A command list \<open>char * cmd_list[]\<close> is a function from positions to tokens, NULL at the
  positions that no token fills.
\<close>

definition gpio_is_valid_gpio_direction ::
  "fetch_defs \<Rightarrow> Fetch_terminals \<Rightarrow> string option \<Rightarrow> halt + int" where
  "gpio_is_valid_gpio_direction d fetch_terms chkgpio_direction =
     token_match (TOKEN_MAX_LEN d) (gpio_direction fetch_terms) chkgpio_direction"

definition gpio_is_valid_gpio_sense ::
  "fetch_defs \<Rightarrow> Fetch_terminals \<Rightarrow> string option \<Rightarrow> halt + int" where
  "gpio_is_valid_gpio_sense d fetch_terms chkgpio_sense =
     token_match (TOKEN_MAX_LEN d) (gpio_sense fetch_terms) chkgpio_sense"

definition gpio_is_valid_gpio_subcommandA ::
  "fetch_defs \<Rightarrow> Fetch_terminals \<Rightarrow> string option \<Rightarrow> halt + int" where
  "gpio_is_valid_gpio_subcommandA d fetch_terms chkgpio_subcommandA =
     token_match (TOKEN_MAX_LEN d) (gpio_subcommandA fetch_terms) chkgpio_subcommandA"

definition gpio_is_valid_port_subcommand ::
  "fetch_defs \<Rightarrow> Fetch_terminals \<Rightarrow> string option \<Rightarrow> halt + int" where
  "gpio_is_valid_port_subcommand d fetch_terms chkport_subcommand =
     token_match (TOKEN_MAX_LEN d) (port_subcommand fetch_terms) chkport_subcommand"

definition gpio_is_valid_pin_subcommand ::
  "fetch_defs \<Rightarrow> Fetch_terminals \<Rightarrow> string option \<Rightarrow> halt + int" where
  "gpio_is_valid_pin_subcommand d fetch_terms chkpin_subcommand =
     token_match (TOKEN_MAX_LEN d) (pin_subcommand fetch_terms) chkpin_subcommand"

text \<open>
  \<open>gpio_get_port_pin\<close> takes the values \<open>*port\<close> and \<open>*pin\<close> have at the call and returns
  its result with the values they have at the return.
\<close>

definition gpio_get_port_pin ::
  "fetch_defs \<Rightarrow> (nat \<Rightarrow> string option) \<Rightarrow> Fetch_terminals \<Rightarrow> GPIO_TypeDef option \<Rightarrow>
   GPIO_pinnum \<Rightarrow> halt + bool \<times> GPIO_TypeDef option \<times> GPIO_pinnum" where
  "gpio_get_port_pin d cmd_list fetch_terms port pin =
     (case gpio_is_valid_port_subcommand d fetch_terms (cmd_list (PORT d)) of
        Inl h \<Rightarrow> Inl h
      | Inr valid_port \<Rightarrow>
          if valid_port \<ge> 0 then
            (case string_to_gpioport (MAX_PIN_STR_LEN d) (cmd_list (PORT d)) of
               Inl h \<Rightarrow> Inl h
             | Inr gpio_port \<Rightarrow>
                 if gpio_port \<noteq> None then
                   (case gpio_is_valid_pin_subcommand d fetch_terms (cmd_list (PIN d)) of
                      Inl h \<Rightarrow> Inl h
                    | Inr valid_pin \<Rightarrow>
                        if valid_pin \<ge> 0 then
                          (case string_to_pinnum (MAX_PIN_STR_LEN d) (cmd_list (PIN d)) of
                             Inl h \<Rightarrow> Inl h
                           | Inr gpio_pinnum \<Rightarrow>
                               if gpio_pinnum \<noteq> NO_GPIO_PIN
                                 then Inr (True, gpio_port, gpio_pinnum)
                               else Inr (False, gpio_port, NO_GPIO_PIN))
                        else Inr (False, gpio_port, pin))
                 else Inr (False, None, pin))
          else Inr (False, port, pin))"

text \<open>
  \<open>palReadPad\<close> reads the level of a pad from the hardware: \<open>pads\<close> gives the level of
  every pad at the time of the call.
\<close>

definition gpio_get ::
  "fetch_defs \<Rightarrow> (GPIO_TypeDef \<Rightarrow> GPIO_pinnum \<Rightarrow> 32 word) \<Rightarrow> BaseSequentialStream option \<Rightarrow>
   Fetch_terminals \<Rightarrow> (nat \<Rightarrow> string option) \<Rightarrow> halt + bool \<times> event list" where
  "gpio_get d pads chp fetch_terms cmd_list =
     (case gpio_get_port_pin d cmd_list fetch_terms (Some GPIOA) PIN0 of
        Inl h \<Rightarrow> Inl h
      | Inr (ok, port, pin) \<Rightarrow>
          if ok then
            (case port of
               Some p \<Rightarrow>
                 if pin \<noteq> NO_GPIO_PIN then
                   Inr (True, [PalReadPad p pin] @ chprintf chp (''%d'' @ CRLF) [ArgInt (pads p pin)])
                 else Inr (False, [])
             | None \<Rightarrow> Inr (False, []))
          else Inr (False, []))"

definition gpio_set ::
  "fetch_defs \<Rightarrow> BaseSequentialStream option \<Rightarrow> Fetch_terminals \<Rightarrow> (nat \<Rightarrow> string option) \<Rightarrow>
   halt + bool \<times> event list" where
  "gpio_set d chp fetch_terms cmd_list =
     (case gpio_get_port_pin d cmd_list fetch_terms None PIN0 of
        Inl h \<Rightarrow> Inl h
      | Inr (ok, port, pin) \<Rightarrow>
          if ok then
            (case port of
               Some p \<Rightarrow> if pin \<noteq> NO_GPIO_PIN then Inr (True, [PalSetPad p pin]) else Inr (False, [])
             | None \<Rightarrow> Inr (False, []))
          else Inr (False, []))"

definition gpio_clear ::
  "fetch_defs \<Rightarrow> BaseSequentialStream option \<Rightarrow> Fetch_terminals \<Rightarrow> (nat \<Rightarrow> string option) \<Rightarrow>
   halt + bool \<times> event list" where
  "gpio_clear d chp fetch_terms cmd_list =
     (case gpio_get_port_pin d cmd_list fetch_terms None PIN0 of
        Inl h \<Rightarrow> Inl h
      | Inr (ok, port, pin) \<Rightarrow>
          if ok then
            (case port of
               Some p \<Rightarrow> if pin \<noteq> NO_GPIO_PIN then Inr (True, [PalClearPad p pin]) else Inr (False, [])
             | None \<Rightarrow> Inr (False, []))
          else Inr (False, []))"

text \<open>
  The last step of \<open>gpio_config\<close>, once \<open>direction\<close> and \<open>sense\<close> are set: the port and
  the pin are resolved and the mode of the pad is set.
\<close>

definition gpio_config_pad ::
  "fetch_defs \<Rightarrow> BaseSequentialStream option \<Rightarrow> Fetch_terminals \<Rightarrow> (nat \<Rightarrow> string option) \<Rightarrow>
   32 word \<Rightarrow> 32 word \<Rightarrow> halt + bool \<times> event list" where
  "gpio_config_pad d chp fetch_terms cmd_list direction sense =
     (case gpio_get_port_pin d cmd_list fetch_terms None PIN0 of
        Inl h \<Rightarrow> Inl h
      | Inr (ok, port, pin) \<Rightarrow>
          if ok then
            (case port of
               Some p \<Rightarrow>
                 if pin \<noteq> NO_GPIO_PIN then
                   Inr (True,
                     [DBG_VMSG chp ''pin: %d'' [MPin pin],
                      DBG_VMSG chp (''port: 0x%x'' @ [CHR 0x09] @ ''0x%x'') [MPort port, MGPIOA_BASE],
                      DBG_VMSG chp ''dir: %d'' [MInt direction],
                      DBG_VMSG chp ''sense: %d'' [MInt sense],
                      PalSetPadMode p pin (direction OR sense)])
                 else Inr (False, [])
             | None \<Rightarrow> Inr (False, []))
          else Inr (False, []))"

text \<open>The second step of \<open>gpio_config\<close>: the sense token.\<close>

definition gpio_config_sense ::
  "fetch_defs \<Rightarrow> hal_defs \<Rightarrow> BaseSequentialStream option \<Rightarrow> Fetch_terminals \<Rightarrow>
   (nat \<Rightarrow> string option) \<Rightarrow> 32 word \<Rightarrow> halt + bool \<times> event list" where
  "gpio_config_sense d k chp fetch_terms cmd_list direction =
     (case gpio_is_valid_gpio_sense d fetch_terms (cmd_list (SENSE d)) of
        Inl h \<Rightarrow> Inl h
      | Inr valid_sense \<Rightarrow>
          if valid_sense \<ge> 0 then
            (case cmd_list (SENSE d) of
               None \<Rightarrow> Inl NullPointerRead
             | Some s \<Rightarrow>
                 if strncasecmp s ''pullup'' (strlen ''pullup'') = 0
                   then gpio_config_pad d chp fetch_terms cmd_list direction
                          (PAL_STM32_PUDR_PULLUP k)
                 else if strncasecmp s ''pulldown'' (strlen ''pulldown'') = 0
                   then gpio_config_pad d chp fetch_terms cmd_list direction
                          (PAL_STM32_PUDR_PULLDOWN k)
                 else if strncasecmp s ''floating'' (strlen ''floating'') = 0
                   then gpio_config_pad d chp fetch_terms cmd_list direction
                          (PAL_STM32_PUDR_FLOATING k)
                 else if strncasecmp s ''analog'' (strlen ''analog'') = 0
                   then gpio_config_pad d chp fetch_terms cmd_list direction
                          (PAL_STM32_MODE_ANALOG k)
                 else Inr (False, []))
          else Inr (False, []))"

definition gpio_config ::
  "fetch_defs \<Rightarrow> hal_defs \<Rightarrow> BaseSequentialStream option \<Rightarrow> Fetch_terminals \<Rightarrow>
   (nat \<Rightarrow> string option) \<Rightarrow> halt + bool \<times> event list" where
  "gpio_config d k chp fetch_terms cmd_list =
     (case gpio_is_valid_gpio_direction d fetch_terms (cmd_list (DIRECTION d)) of
        Inl h \<Rightarrow> Inl h
      | Inr valid_direction \<Rightarrow>
          if valid_direction \<ge> 0 then
            (case cmd_list (DIRECTION d) of
               None \<Rightarrow> Inl NullPointerRead
             | Some s \<Rightarrow>
                 if strncasecmp s ''input'' (strlen ''input'') = 0
                   then gpio_config_sense d k chp fetch_terms cmd_list (PAL_STM32_MODE_INPUT k)
                 else if strncasecmp s ''output'' (strlen ''output'') = 0
                   then gpio_config_sense d k chp fetch_terms cmd_list (PAL_STM32_MODE_OUTPUT k)
                 else Inr (False, [DBG_MSG chp ''The port direction is not available'']))
          else Inr (False, []))"

definition gpio_dispatch ::
  "fetch_defs \<Rightarrow> hal_defs \<Rightarrow> (GPIO_TypeDef \<Rightarrow> GPIO_pinnum \<Rightarrow> 32 word) \<Rightarrow>
   BaseSequentialStream option \<Rightarrow> (nat \<Rightarrow> string option) \<Rightarrow> string list \<Rightarrow> Fetch_terminals \<Rightarrow>
   halt + bool \<times> event list" where
  "gpio_dispatch d k pads chp cmd_list data_list fetch_terms =
     (case gpio_is_valid_gpio_subcommandA d fetch_terms (cmd_list (ACTION d)) of
        Inl h \<Rightarrow> Inl h
      | Inr valid_action \<Rightarrow>
          if valid_action \<ge> 0 then
            (case cmd_list (ACTION d) of
               None \<Rightarrow> Inl NullPointerRead
             | Some a \<Rightarrow>
                 if strncasecmp a ''get'' (strlen ''get'') = 0
                   then gpio_get d pads chp fetch_terms cmd_list
                 else if strncasecmp a ''set'' (strlen ''set'') = 0
                   then gpio_set d chp fetch_terms cmd_list
                 else if strncasecmp a ''clear'' (strlen ''clear'') = 0
                   then gpio_clear d chp fetch_terms cmd_list
                 else if strncasecmp a ''config'' (strlen ''config'') = 0
                   then (if cmd_list (DIRECTION d) \<noteq> None \<and> cmd_list (SENSE d) \<noteq> None
                         then gpio_config d k chp fetch_terms cmd_list
                         else Inr (False, []))
                 else Inr (False, [DBG_MSG chp ''sub-command not ready yet...'']))
          else Inr (False, []))"



section \<open>fetch_dac.c\<close>

text \<open>
  \<open>strtol s &endptr 0\<close> of the C library, \<open>long\<close> having 32 bits: white space, an
  optional sign, then the longest run of digits of the base the prefix selects (\<open>0x\<close>
  before a hexadecimal digit: 16; a leading \<open>0\<close>: 8; else 10). The result is the value,
  held to the range of \<open>long\<close>, with the characters from \<open>endptr\<close> on; without any digit
  the value is 0 and \<open>endptr\<close> is the start of the string.
\<close>

definition isspace :: "char \<Rightarrow> bool" where
  "isspace c = (c \<in> set [CHR '' '', CHR 0x09, CHR 0x0A, CHR 0x0B, CHR 0x0C, CHR 0x0D])"

definition is_digit_of :: "nat \<Rightarrow> char \<Rightarrow> bool" where
  "is_digit_of base c = (digit_val c < base)"

definition strtol :: "string \<Rightarrow> 32 word \<times> string" where
  "strtol nptr =
     (let s0 = c_str nptr;
          s1 = dropWhile isspace s0;
          neg = (char_at0 s1 = CHR ''-'');
          s2 = (if char_at0 s1 = CHR ''-'' \<or> char_at0 s1 = CHR ''+'' then tl s1 else s1);
          hex = (char_at0 s2 = CHR ''0'' \<and> tolower (char_at0 (tl s2)) = CHR ''x''
                 \<and> is_digit_of 16 (char_at0 (tl (tl s2))));
          base = (if hex then 16 else if char_at0 s2 = CHR ''0'' then 8 else 10);
          s3 = (if hex then tl (tl s2) else s2);
          ds = takeWhile (is_digit_of base) s3;
          v = foldl (\<lambda>a c. a * int base + int (digit_val c)) 0 ds;
          r = (if neg then max (- (2 ^ 31)) (- v) else min (2 ^ 31 - 1) v)
      in if ds = [] then (0, s0) else (word_of_int r, dropWhile (is_digit_of base) s3))"

text \<open>
  The list of arguments \<open>char * data_list[]\<close> is the list of its strings; \<open>data_list[i]\<close>
  is NULL behind the last of them. \<open>fetch_dac_help_cmd\<close> and \<open>fetch_dac_dispatch\<close> are
  not modelled: they rest on \<open>fetch_display_help\<close> and \<open>fetch_dispatch\<close> of fetch.c,
  which is not part of the sources at hand.
\<close>

definition data_at :: "string list \<Rightarrow> nat \<Rightarrow> string option" where
  "data_at data_list i = (if i < length data_list then Some (data_list ! i) else None)"

definition external_dac_write :: "16 word \<Rightarrow> 16 word \<Rightarrow> bool \<times> event list" where
  "external_dac_write channel v =
     (if channel > 3 \<or> v > 0xfff then (False, [])
      else
        (let value1 = v OR push_bit 14 channel;
             value2 = value1 OR push_bit 12 1;
             tx_data = [ucast (drop_bit 8 value2), ucast (value2 AND 0xff)]
         in (True, [SpiSelect, SpiSend 2 tx_data, SpiUnselect])))"

definition fetch_dac_write_cmd ::
  "fetch_defs \<Rightarrow> BaseSequentialStream option \<Rightarrow> (nat \<Rightarrow> string option) \<Rightarrow> string list \<Rightarrow>
   halt + bool \<times> event list" where
  "fetch_dac_write_cmd d chp cmd_list data_list =
     (case fetch_input_check chp cmd_list (FETCH_TOK_SUBCMD_0 d) data_list 2 of
        (False, es) \<Rightarrow> Inr (False, es)
      | (True, es) \<Rightarrow>
          (case data_at data_list 0 of
             None \<Rightarrow> Inl NullPointerRead
           | Some a0 \<Rightarrow>
               (case strtol a0 of
                  (channel, endptr) \<Rightarrow>
                    if char_at0 endptr \<noteq> CHR 0x00
                      then Inr (False, es @ util_message_error chp (Some ''invalid channel'') [])
                    else
                      (case data_at data_list 1 of
                         None \<Rightarrow> Inl NullPointerRead
                       | Some a1 \<Rightarrow>
                           (case strtol a1 of
                              (v, endptr) \<Rightarrow>
                                if char_at0 endptr \<noteq> CHR 0x00
                                  then Inr (False,
                                    es @ util_message_error chp (Some ''invalid value'') [])
                                else if channel = 0 \<or> channel = 1 \<or> channel = 2 \<or> channel = 3
                                  then (case external_dac_write (ucast channel) (ucast v) of
                                          (r, ws) \<Rightarrow> Inr (r, es @ ws))
                                else if channel = 4
                                  then Inr (True, es @ [DacPutChannelX 0 (ucast v)])
                                else Inr (False,
                                  es @ util_message_error chp (Some ''invalid channel'') []))))))"

definition fetch_dac_reset :: "BaseSequentialStream option \<Rightarrow> bool \<times> event list" where
  "fetch_dac_reset chp =
     (True,
      [DacPutChannelX 0 0]
      @ snd (external_dac_write 0 0)
      @ snd (external_dac_write 1 0)
      @ snd (external_dac_write 2 0)
      @ snd (external_dac_write 3 0))"

definition fetch_dac_reset_cmd ::
  "fetch_defs \<Rightarrow> BaseSequentialStream option \<Rightarrow> (nat \<Rightarrow> string option) \<Rightarrow> string list \<Rightarrow>
   halt + bool \<times> event list" where
  "fetch_dac_reset_cmd d chp cmd_list data_list =
     (case fetch_input_check chp cmd_list (FETCH_TOK_SUBCMD_0 d) data_list 0 of
        (False, es) \<Rightarrow> Inr (False, es)
      | (True, es) \<Rightarrow> (case fetch_dac_reset chp of (r, ws) \<Rightarrow> Inr (r, es @ ws)))"

text \<open>
  The state \<open>fetch_dac_init\<close> works on: its static flag, the two configurations, and the
  calls made to the drivers so far.
\<close>

record dac_state =
  dac_init_flag :: bool
  dac1_cfg :: DACConfig
  spi4_cfg :: SPIConfig
  driver_calls :: "event list"

definition fetch_dac_init :: "hal_defs \<Rightarrow> BaseSequentialStream option \<Rightarrow> dac_state \<Rightarrow> dac_state" where
  "fetch_dac_init k chp s =
     (if dac_init_flag s then s
      else
        (let cfg1 = (dac1_cfg s)\<lparr>init := 0, datamode := DAC_DHRM_12BIT_RIGHT k\<rparr>;
             cfg4 = (spi4_cfg s)\<lparr>end_cb := None, ssport := Some GPIOE,
                      sspad := GPIOE_SPI4_NSS k, cr1 := SPI_CR1_CPHA k\<rparr>
         in s\<lparr>dac1_cfg := cfg1,
               spi4_cfg := cfg4,
               driver_calls :=
                 driver_calls s @ [DacStart cfg1] @ [SpiStart cfg4] @ snd (fetch_dac_reset chp),
               dac_init_flag := True\<rparr>))"

text \<open>The calls to the DAC and SPI drivers among a list of calls.\<close>

fun is_dac_op :: "event \<Rightarrow> bool" where
  "is_dac_op (DacStart c) = True"
| "is_dac_op (SpiStart c) = True"
| "is_dac_op (DacPutChannelX n v) = True"
| "is_dac_op SpiSelect = True"
| "is_dac_op (SpiSend n bs) = True"
| "is_dac_op SpiUnselect = True"
| "is_dac_op e = False"

definition dac_ops :: "event list \<Rightarrow> event list" where
  "dac_ops es = filter is_dac_op es"

section \<open>Notions the properties are stated with\<close>

text \<open>
  One emission under the lock: a list of calls that is empty, or starts with the wait on
  the semaphore, goes on with prints only, and ends with the signal.
\<close>

fun is_print :: "event \<Rightarrow> bool" where
  "is_print (Chprintf chp s) = True"
| "is_print e = False"

fun prints_then_signal :: "event list \<Rightarrow> bool" where
  "prints_then_signal [] = False"
| "prints_then_signal [e] = (e = ChBSemSignal)"
| "prints_then_signal (e # es) = (is_print e \<and> prints_then_signal es)"

definition locked_once :: "event list \<Rightarrow> bool" where
  "locked_once es =
     (case es of [] \<Rightarrow> True | e # r \<Rightarrow> e = ChBSemWait \<and> prints_then_signal r)"

text \<open>
  Modelled from the spec: the frame around a dispatched command is put by the caller of
  the dispatch functions, which is not part of the sources at hand. The spec (4.5): one
  begin, the emissions of the handler, one end with the result of the handler.
\<close>

definition transaction :: "BaseSequentialStream option \<Rightarrow> bool \<times> event list \<Rightarrow> event list" where
  "transaction chp r = util_message_begin chp @ snd r @ util_message_end chp (fst r)"

text \<open>A template ends in a line terminator: its last character is a line feed or a carriage return.\<close>

definition ends_in_line_terminator :: "string \<Rightarrow> bool" where
  "ends_in_line_terminator fmt =
     (c_str fmt \<noteq> [] \<and> (last (c_str fmt) = LF \<or> last (c_str fmt) = CR))"

text \<open>
  The port token of a command list resolves: it is in its terminal set and names an entry
  of \<open>gpio_portmap\<close>. Likewise the pin token and \<open>gpio_pinmap\<close>. A NULL token does not
  resolve.
\<close>

definition port_resolves :: "fetch_defs \<Rightarrow> Fetch_terminals \<Rightarrow> (nat \<Rightarrow> string option) \<Rightarrow> bool" where
  "port_resolves d fetch_terms cmd_list =
     (case gpio_is_valid_port_subcommand d fetch_terms (cmd_list (PORT d)) of
        Inl h \<Rightarrow> False
      | Inr valid_port \<Rightarrow>
          valid_port \<ge> 0
          \<and> (case string_to_gpioport (MAX_PIN_STR_LEN d) (cmd_list (PORT d)) of
                Inr (Some p) \<Rightarrow> True | _ \<Rightarrow> False))"

definition pin_resolves :: "fetch_defs \<Rightarrow> Fetch_terminals \<Rightarrow> (nat \<Rightarrow> string option) \<Rightarrow> bool" where
  "pin_resolves d fetch_terms cmd_list =
     (case gpio_is_valid_pin_subcommand d fetch_terms (cmd_list (PIN d)) of
        Inl h \<Rightarrow> False
      | Inr valid_pin \<Rightarrow>
          valid_pin \<ge> 0
          \<and> (case string_to_pinnum (MAX_PIN_STR_LEN d) (cmd_list (PIN d)) of
                Inr n \<Rightarrow> n \<noteq> NO_GPIO_PIN | _ \<Rightarrow> False))"

definition resolves_port_pin :: "fetch_defs \<Rightarrow> Fetch_terminals \<Rightarrow> (nat \<Rightarrow> string option) \<Rightarrow> bool" where
  "resolves_port_pin d fetch_terms cmd_list =
     (port_resolves d fetch_terms cmd_list \<and> pin_resolves d fetch_terms cmd_list)"

text \<open>
  \<open>gpio_get_port_pin\<close> hands a NULL token to \<open>token_match\<close>: the port token is NULL, or
  the port token resolves and the pin token is NULL (the pin token is read only then).
\<close>

definition reads_null_token :: "fetch_defs \<Rightarrow> Fetch_terminals \<Rightarrow> (nat \<Rightarrow> string option) \<Rightarrow> bool" where
  "reads_null_token d fetch_terms cmd_list =
     (cmd_list (PORT d) = None
      \<or> (port_resolves d fetch_terms cmd_list \<and> cmd_list (PIN d) = None))"



text \<open>
  An instance of the parameters, for the evaluations below: token positions, lengths,
  constants and terminal sets as a build of the firmware could have them.
\<close>

definition example_defs :: fetch_defs where
  "example_defs =
     \<lparr>ACTION = 1, PORT = 2, PIN = 3, DIRECTION = 4, SENSE = 5, FETCH_TOK_SUBCMD_0 = 1,
      MAX_PIN_STR_LEN = 8, TOKEN_MAX_LEN = 25\<rparr>"

definition example_hal :: hal_defs where
  "example_hal =
     \<lparr>PAL_STM32_MODE_INPUT = 0, PAL_STM32_MODE_OUTPUT = 1, PAL_STM32_MODE_ANALOG = 3,
      PAL_STM32_PUDR_FLOATING = 0, PAL_STM32_PUDR_PULLUP = 0x20, PAL_STM32_PUDR_PULLDOWN = 0x40,
      DAC_DHRM_12BIT_RIGHT = 0, GPIOE_SPI4_NSS = 4, SPI_CR1_CPHA = 1\<rparr>"

definition example_pads :: "GPIO_TypeDef \<Rightarrow> GPIO_pinnum \<Rightarrow> 32 word" where
  "example_pads p n = 1"

definition example_terms :: Fetch_terminals where
  "example_terms =
     \<lparr>gpio_direction = [''input'', ''output''],
      gpio_sense = [''pullup'', ''pulldown'', ''floating'', ''analog''],
      gpio_subcommandA = [''get'', ''set'', ''clear'', ''config''],
      port_subcommand = map fst gpio_portmap,
      pin_subcommand = map fst gpio_pinmap\<rparr>"

text \<open>A command list from its tokens, in order.\<close>

definition cmds :: "string list \<Rightarrow> nat \<Rightarrow> string option" where
  "cmds toks i = (if i < length toks then Some (toks ! i) else None)"

section \<open>Facts about the C strings\<close>

lemma tolower_NUL: "tolower c = CHR 0x00 \<longleftrightarrow> c = CHR 0x00"
proof -
  have "l \<noteq> CHR 0x00"
    if "map_of (zip ''ABCDEFGHIJKLMNOPQRSTUVWXYZ'' ''abcdefghijklmnopqrstuvwxyz'') c = Some l" for l
    using that by (auto dest!: map_of_SomeD simp del: map_of.simps)
  moreover have
    "map_of (zip ''ABCDEFGHIJKLMNOPQRSTUVWXYZ'' ''abcdefghijklmnopqrstuvwxyz'') (CHR 0x00) = None"
    by simp
  ultimately show ?thesis
    by (auto simp: tolower_def split: option.splits simp del: map_of.simps)
qed

lemma tolower_0 [simp]: "tolower (CHR 0x00) = CHR 0x00"
  by (simp add: tolower_def)

lemma tolower_NUL2: "CHR 0x00 = tolower c \<longleftrightarrow> c = CHR 0x00"
  using tolower_NUL [of c] by auto

lemma of_char_diff_0: "(of_char c1 :: int) - of_char c2 = 0 \<longleftrightarrow> c1 = c2"
  by simp

lemma c_str_Nil [simp]: "c_str [] = []"
  by (simp add: c_str_def)

lemma c_str_Cons: "c_str (c # cs) = (if c = CHR 0x00 then [] else c # c_str cs)"
  by (simp add: c_str_def)

lemma strncasecmp_Suc:
  "strncasecmp s1 s2 (Suc n) = 0 \<longleftrightarrow>
     tolower (char_at0 s1) = tolower (char_at0 s2) \<and>
     (char_at0 s2 = CHR 0x00 \<or> strncasecmp (tl s1) (tl s2) n = 0)"
  by (simp only: strncasecmp.simps Let_def of_char_diff_0 tolower_NUL split: if_split) blast

lemma strncasecmp_0_iff:
  "strncasecmp a b n = 0 \<longleftrightarrow>
     take n (map tolower (c_str a)) = take n (map tolower (c_str b))"
proof (induction n arbitrary: a b)
  case 0
  show ?case by simp
next
  case (Suc n)
  show ?case
  proof (cases a)
    case Nil
    then show ?thesis
      by (cases b) (auto simp: strncasecmp_Suc tolower_NUL tolower_NUL2 c_str_Cons simp del: strncasecmp.simps(2))
  next
    case (Cons x xs)
    note a = this
    show ?thesis
    proof (cases b)
      case Nil
      with a show ?thesis by (auto simp: strncasecmp_Suc tolower_NUL tolower_NUL2 c_str_Cons simp del: strncasecmp.simps(2))
    next
      case (Cons y ys)
      with a Suc.IH [of xs ys] show ?thesis
        by (auto simp: strncasecmp_Suc tolower_NUL tolower_NUL2 c_str_Cons simp del: strncasecmp.simps(2))
    qed
  qed
qed

lemma strncasecmp_longest:
  assumes len: "length name < M" and nul: "CHR 0x00 \<notin> set name"
    and low: "map tolower name = name"
  shows "strncasecmp name s (get_longest_str_length name s M) = 0 \<longleftrightarrow>
           map tolower (c_str s) = name"
proof -
  have cn: "c_str name = name"
    using nul by (auto simp: c_str_def)
  define t where "t = map tolower (c_str s)"
  define n where "n = min M (max (length name) (length t))"
  have n1: "length name \<le> n"
    using len by (simp add: n_def)
  have "strncasecmp name s (get_longest_str_length name s M) = 0 \<longleftrightarrow> take n name = take n t"
    by (simp add: strncasecmp_0_iff get_longest_str_length_def strlen_def cn low t_def n_def)
  also have "\<dots> \<longleftrightarrow> t = name"
  proof
    assume eq: "take n name = take n t"
    from n1 have tn: "take n name = name" by simp
    have "length (take n t) = min (length t) n" by simp
    with eq tn have l: "min (length t) n = length name" by simp
    have "length t \<le> n"
    proof (rule ccontr)
      assume "\<not> length t \<le> n"
      with l have "n = length name" by (simp add: min_def split: if_splits)
      with \<open>\<not> length t \<le> n\<close> len show False by (simp add: n_def min_def max_def split: if_splits)
    qed
    then have "take n t = t" by simp
    with eq tn show "t = name" by simp
  next
    assume "t = name"
    then show "take n name = take n t" by simp
  qed
  finally show ?thesis by (simp add: t_def)
qed

lemma chvprintf_text_plain: "CHR ''%'' \<notin> set s \<Longrightarrow> chvprintf_text s args = s"
  by (induction s) auto

lemma chvprintf_text_d:
  "chvprintf_text ''%d'' [ArgInt w] =
     (if sint w < 0 then CHR ''-'' # ltoa (nat (- sint w)) 10 else ltoa (nat (sint w)) 10)"
  by (simp add: directive_def conversion_def fill_def isdigit_def dec_val_def)

lemma chvprintf_text_u: "chvprintf_text ''%u'' [ArgInt w] = ltoa (unat w) 10"
  by (simp add: directive_def conversion_def fill_def isdigit_def dec_val_def)

lemma c_at_0: "c_at s 0 = CHR 0x00 \<longleftrightarrow> c_str s = []"
  by (cases s) (auto simp: c_at_def c_str_Cons)

lemma c_at_last: "c_str s \<noteq> [] \<Longrightarrow> c_at s (strlen s - Suc 0) = last (c_str s)"
  by (simp add: c_at_def strlen_def last_conv_nth c_str_def takeWhile_nth)

lemma needs_newline_Some:
  "needs_newline (Some fmt) \<longleftrightarrow>
     \<not> (c_str fmt \<noteq> [] \<and> (last (c_str fmt) = LF \<or> last (c_str fmt) = CR))"
  by (auto simp: needs_newline_def c_at_0 c_at_last Let_def)

lemma needs_newline_iff: "needs_newline (Some fmt) \<longleftrightarrow> \<not> ends_in_line_terminator fmt"
  by (simp add: needs_newline_Some ends_in_line_terminator_def)

section \<open>Properties of the token matching in gpio.c\<close>

lemma string_to_pinnum_loop_map_of:
  assumes "\<forall>(n, p) \<in> set tbl. length n < M \<and> CHR 0x00 \<notin> set n \<and> map tolower n = n"
  shows "string_to_pinnum_loop M tbl (Some s) =
           Inr (case map_of tbl (map tolower (c_str s)) of Some p \<Rightarrow> p | None \<Rightarrow> NO_GPIO_PIN)"
  using assms
proof (induction tbl)
  case Nil
  show ?case by simp
next
  case (Cons e tbl)
  obtain n p where e: "e = (n, p)" by (cases e)
  from Cons.prems e have n: "length n < M" "CHR 0x00 \<notin> set n" "map tolower n = n"
    by auto
  from Cons.prems have "\<forall>(n, p) \<in> set tbl. length n < M \<and> CHR 0x00 \<notin> set n \<and> map tolower n = n"
    by simp
  from Cons.IH [OF this] show ?case
    by (auto simp: e Let_def strncasecmp_longest [OF n])
qed

lemma string_to_gpioport_loop_map_of:
  assumes "\<forall>(n, p) \<in> set tbl. length n < M \<and> CHR 0x00 \<notin> set n \<and> map tolower n = n"
  shows "string_to_gpioport_loop M tbl (Some s) = Inr (map_of tbl (map tolower (c_str s)))"
  using assms
proof (induction tbl)
  case Nil
  show ?case by simp
next
  case (Cons e tbl)
  obtain n p where e: "e = (n, p)" by (cases e)
  from Cons.prems e have n: "length n < M" "CHR 0x00 \<notin> set n" "map tolower n = n"
    by auto
  from Cons.prems have "\<forall>(n, p) \<in> set tbl. length n < M \<and> CHR 0x00 \<notin> set n \<and> map tolower n = n"
    by simp
  from Cons.IH [OF this] show ?case
    by (auto simp: e Let_def strncasecmp_longest [OF n])
qed

lemma gpio_pinmap_names:
  "5 < M \<Longrightarrow> \<forall>(n, p) \<in> set gpio_pinmap. length n < M \<and> CHR 0x00 \<notin> set n \<and> map tolower n = n"
  by (simp add: gpio_pinmap_def tolower_def)

lemma gpio_portmap_names:
  "5 < M \<Longrightarrow> \<forall>(n, p) \<in> set gpio_portmap. length n < M \<and> CHR 0x00 \<notin> set n \<and> map tolower n = n"
  by (simp add: gpio_portmap_def tolower_def)

lemma gpio_pinmap_distinct: "distinct (map fst gpio_pinmap)" "distinct (map snd gpio_pinmap)"
  "NO_GPIO_PIN \<notin> snd ` set gpio_pinmap"
  by (simp_all add: gpio_pinmap_def)

lemma gpio_portmap_distinct: "distinct (map fst gpio_portmap)" "distinct (map snd gpio_portmap)"
  by (simp_all add: gpio_portmap_def)

lemma distinct_snd_unique:
  "distinct (map snd tbl) \<Longrightarrow> (a, v) \<in> set tbl \<Longrightarrow> (b, v) \<in> set tbl \<Longrightarrow> a = b"
  by (induction tbl) (auto simp: image_iff)

lemma string_to_pinnum_Some:
  "5 < M \<Longrightarrow> string_to_pinnum M (Some s) =
     Inr (case map_of gpio_pinmap (map tolower (c_str s)) of Some p \<Rightarrow> p | None \<Rightarrow> NO_GPIO_PIN)"
  unfolding string_to_pinnum_def
  by (rule string_to_pinnum_loop_map_of) (rule gpio_pinmap_names)

lemma string_to_gpioport_Some:
  "5 < M \<Longrightarrow> string_to_gpioport M (Some s) = Inr (map_of gpio_portmap (map tolower (c_str s)))"
  unfolding string_to_gpioport_def
  by (rule string_to_gpioport_loop_map_of) (rule gpio_portmap_names)

lemma string_to_pinnum_iff:
  assumes M: "5 < M" and e: "(pinstring, pinnum) \<in> set gpio_pinmap"
  shows "string_to_pinnum M (Some s) = Inr pinnum \<longleftrightarrow> map tolower (c_str s) = pinstring"
proof
  assume "map tolower (c_str s) = pinstring"
  moreover from e have "map_of gpio_pinmap pinstring = Some pinnum"
    by (simp add: gpio_pinmap_distinct)
  ultimately show "string_to_pinnum M (Some s) = Inr pinnum"
    by (simp add: string_to_pinnum_Some [OF M])
next
  assume r: "string_to_pinnum M (Some s) = Inr pinnum"
  from e have ne: "pinnum \<noteq> NO_GPIO_PIN"
    using gpio_pinmap_distinct(3) by force
  with r obtain p where "map_of gpio_pinmap (map tolower (c_str s)) = Some pinnum"
    by (auto simp: string_to_pinnum_Some [OF M] split: option.splits)
  then have "(map tolower (c_str s), pinnum) \<in> set gpio_pinmap"
    by (rule map_of_SomeD)
  with e show "map tolower (c_str s) = pinstring"
    using distinct_snd_unique [OF gpio_pinmap_distinct(2)] by blast
qed

lemma string_to_gpioport_iff:
  assumes M: "5 < M" and e: "(portstring, portptr) \<in> set gpio_portmap"
  shows "string_to_gpioport M (Some s) = Inr (Some portptr) \<longleftrightarrow>
           map tolower (c_str s) = portstring"
proof
  assume "map tolower (c_str s) = portstring"
  moreover from e have "map_of gpio_portmap portstring = Some portptr"
    by (simp add: gpio_portmap_distinct)
  ultimately show "string_to_gpioport M (Some s) = Inr (Some portptr)"
    by (simp add: string_to_gpioport_Some [OF M])
next
  assume r: "string_to_gpioport M (Some s) = Inr (Some portptr)"
  then have "map_of gpio_portmap (map tolower (c_str s)) = Some portptr"
    by (simp add: string_to_gpioport_Some [OF M])
  then have "(map tolower (c_str s), portptr) \<in> set gpio_portmap"
    by (rule map_of_SomeD)
  with e show "map tolower (c_str s) = portstring"
    using distinct_snd_unique [OF gpio_portmap_distinct(2)] by blast
qed

lemma strict_prefix_not_name:
  "strict_prefix (c_str s) name \<Longrightarrow> map tolower (c_str s) \<noteq> name"
  by (auto simp: strict_prefix_def prefix_def dest: arg_cong [where f = length])

text \<open>
  Claim C2. Token matching is exact equality up to case, not prefix matching. Provided
  \<open>MAX_PIN_STR_LEN\<close> exceeds the length of every candidate, \<open>string_to_pinnum\<close> returns
  the pin number of an entry of \<open>gpio_pinmap\<close> if and only if the input, with its capital
  letters made small, is the string of that entry, which is also when the comparison
  over the greater of the two lengths (capped) finds no difference; a proper prefix of a
  candidate does not match it; an input that is no candidate gives \<open>NO_GPIO_PIN\<close>. The
  same holds for \<open>string_to_gpioport\<close> and \<open>gpio_portmap\<close>, with NULL for no match.
\<close>

theorem token_matching_exact:
  assumes "5 < M"
  shows "((pinstring, pinnum) \<in> set gpio_pinmap \<longrightarrow>
            (string_to_pinnum M (Some s) = Inr pinnum) = (map tolower (c_str s) = pinstring)
            \<and> (strncasecmp pinstring s (get_longest_str_length pinstring s M) = 0)
                = (map tolower (c_str s) = pinstring)
            \<and> (strict_prefix (c_str s) pinstring \<longrightarrow> string_to_pinnum M (Some s) \<noteq> Inr pinnum))
    \<and> (map tolower (c_str s) \<notin> fst ` set gpio_pinmap \<longrightarrow>
          string_to_pinnum M (Some s) = Inr NO_GPIO_PIN)
    \<and> ((portstring, portptr) \<in> set gpio_portmap \<longrightarrow>
            (string_to_gpioport M (Some t) = Inr (Some portptr))
              = (map tolower (c_str t) = portstring)
            \<and> (strncasecmp portstring t (get_longest_str_length portstring t M) = 0)
                = (map tolower (c_str t) = portstring)
            \<and> (strict_prefix (c_str t) portstring \<longrightarrow>
                  string_to_gpioport M (Some t) \<noteq> Inr (Some portptr)))
    \<and> (map tolower (c_str t) \<notin> fst ` set gpio_portmap \<longrightarrow>
          string_to_gpioport M (Some t) = Inr None)"
proof -
  have pins: "(string_to_pinnum M (Some s) = Inr pinnum) = (map tolower (c_str s) = pinstring)
      \<and> (strncasecmp pinstring s (get_longest_str_length pinstring s M) = 0)
          = (map tolower (c_str s) = pinstring)
      \<and> (strict_prefix (c_str s) pinstring \<longrightarrow> string_to_pinnum M (Some s) \<noteq> Inr pinnum)"
    if e: "(pinstring, pinnum) \<in> set gpio_pinmap"
  proof -
    from gpio_pinmap_names [OF assms] e
    have n: "length pinstring < M" "CHR 0x00 \<notin> set pinstring" "map tolower pinstring = pinstring"
      by auto
    from string_to_pinnum_iff [OF assms e] strncasecmp_longest [OF n] strict_prefix_not_name
    show ?thesis by blast
  qed
  have ports: "(string_to_gpioport M (Some t) = Inr (Some portptr))
          = (map tolower (c_str t) = portstring)
      \<and> (strncasecmp portstring t (get_longest_str_length portstring t M) = 0)
          = (map tolower (c_str t) = portstring)
      \<and> (strict_prefix (c_str t) portstring \<longrightarrow>
            string_to_gpioport M (Some t) \<noteq> Inr (Some portptr))"
    if e: "(portstring, portptr) \<in> set gpio_portmap"
  proof -
    from gpio_portmap_names [OF assms] e
    have n: "length portstring < M" "CHR 0x00 \<notin> set portstring"
      "map tolower portstring = portstring"
      by auto
    from string_to_gpioport_iff [OF assms e] strncasecmp_longest [OF n] strict_prefix_not_name
    show ?thesis by blast
  qed
  have no_pin: "string_to_pinnum M (Some s) = Inr NO_GPIO_PIN"
    if "map tolower (c_str s) \<notin> fst ` set gpio_pinmap"
  proof -
    from that have "map_of gpio_pinmap (map tolower (c_str s)) = None"
      by (simp add: map_of_eq_None_iff)
    then show ?thesis by (simp add: string_to_pinnum_Some [OF assms])
  qed
  have no_port: "string_to_gpioport M (Some t) = Inr None"
    if "map tolower (c_str t) \<notin> fst ` set gpio_portmap"
  proof -
    from that have "map_of gpio_portmap (map tolower (c_str t)) = None"
      by (simp add: map_of_eq_None_iff)
    then show ?thesis by (simp add: string_to_gpioport_Some [OF assms])
  qed
  from pins ports no_pin no_port show ?thesis by blast
qed

theorem token_matching_exact_witness:
  "5 < (8 :: nat)
   \<and> (''pin3'', PIN3) \<in> set gpio_pinmap
   \<and> string_to_pinnum 8 (Some ''PIN3'') = Inr PIN3
   \<and> strict_prefix (c_str ''pin'') ''pin0''
   \<and> string_to_pinnum 8 (Some ''pin'') \<noteq> Inr PIN0
   \<and> string_to_pinnum 8 (Some ''pin'') = Inr NO_GPIO_PIN
   \<and> (''portb'', GPIOB) \<in> set gpio_portmap
   \<and> string_to_gpioport 8 (Some ''PortB'') = Inr (Some GPIOB)
   \<and> string_to_gpioport 8 (Some ''port'') = Inr None"
  using
    token_matching_exact [where M = 8 and pinstring = "''pin3''" and pinnum = PIN3
      and s = "''PIN3''" and portstring = "''portb''" and portptr = GPIOB and t = "''PortB''"]
    token_matching_exact [where M = 8 and pinstring = "''pin0''" and pinnum = PIN0
      and s = "''pin''" and portstring = "''portb''" and portptr = GPIOB and t = "''port''"]
  by (simp add: gpio_pinmap_def gpio_portmap_def c_str_def tolower_def)

text \<open>
  The bound on \<open>MAX_PIN_STR_LEN\<close> is needed: with a maximum of 3 the comparison stops
  after three characters, and the prefix \<open>pin\<close> is taken for \<open>pin0\<close>; with a maximum of
  5 the characters behind the fifth are not compared, and \<open>portax\<close> is taken for
  \<open>porta\<close>.
\<close>

lemma small_maximum_prefix_matches: "string_to_pinnum 3 (Some ''pin'') = Inr PIN0"
  by (simp add: string_to_pinnum_def gpio_pinmap_def get_longest_str_length_def strlen_def
      c_str_def tolower_def numeral_3_eq_3)

lemma small_maximum_longer_matches: "string_to_gpioport 5 (Some ''portax'') = Inr (Some GPIOA)"
  by (simp add: string_to_gpioport_def gpio_portmap_def get_longest_str_length_def strlen_def
      c_str_def tolower_def numeral_eq_Suc)

section \<open>Properties of the handlers of gpio.c\<close>

lemma token_match_simps:
  "token_match m toks None = Inl PreconditionViolation"
  "token_match m toks (Some s) = Inr (token_match_from m 0 toks s)"
  by (simp_all add: token_match_def)





















text \<open>
  Tokens that do not resolve: a NULL token, a port token that is not one of \<open>porta\<close> to
  \<open>porti\<close>, a pin token that is not one of \<open>pin0\<close> to \<open>pin15\<close> (none of them up to
  case), whatever the terminal sets hold.
\<close>

lemma unresolved_tokens:
  assumes "5 < MAX_PIN_STR_LEN d"
    and "(case cmd_list (PORT d) of
            None \<Rightarrow> True
          | Some s \<Rightarrow> map tolower (c_str s) \<notin> fst ` set gpio_portmap)
       \<or> (case cmd_list (PIN d) of
            None \<Rightarrow> True
          | Some s \<Rightarrow> map tolower (c_str s) \<notin> fst ` set gpio_pinmap)"
  shows "\<not> resolves_port_pin d fetch_terms cmd_list"
proof
  assume r: "resolves_port_pin d fetch_terms cmd_list"
  then obtain ps where ps: "cmd_list (PORT d) = Some ps"
    by (cases "cmd_list (PORT d)")
      (auto simp: resolves_port_pin_def port_resolves_def gpio_is_valid_port_subcommand_def
        token_match_simps)
  from r obtain ns where ns: "cmd_list (PIN d) = Some ns"
    by (cases "cmd_list (PIN d)")
      (auto simp: resolves_port_pin_def pin_resolves_def gpio_is_valid_pin_subcommand_def
        token_match_simps)
  from r ps have "map_of gpio_portmap (map tolower (c_str ps)) \<noteq> None"
    by (auto simp: resolves_port_pin_def port_resolves_def gpio_is_valid_port_subcommand_def
        token_match_simps string_to_gpioport_Some [OF assms(1)] split: option.splits)
  then have port: "map tolower (c_str ps) \<in> fst ` set gpio_portmap"
    by (simp add: map_of_eq_None_iff)
  from r ns have "map_of gpio_pinmap (map tolower (c_str ns)) \<noteq> None"
    by (auto simp: resolves_port_pin_def pin_resolves_def gpio_is_valid_pin_subcommand_def
        token_match_simps string_to_pinnum_Some [OF assms(1)] split: option.splits)
  then have pin: "map tolower (c_str ns) \<in> fst ` set gpio_pinmap"
    by (simp add: map_of_eq_None_iff)
  from assms(2) ps ns port pin show False by simp
qed

lemmas example_eval =
  example_defs_def example_terms_def cmds_def resolves_port_pin_def port_resolves_def
  pin_resolves_def reads_null_token_def gpio_is_valid_port_subcommand_def
  gpio_is_valid_pin_subcommand_def gpio_is_valid_gpio_subcommandA_def token_match_def
  gpio_portmap_def gpio_pinmap_def get_longest_str_length_def strlen_def c_str_def tolower_def
  string_to_gpioport_def string_to_pinnum_def




text \<open>With both tokens resolved the pad operation takes place.\<close>

lemma gpio_dispatch_set_porta_pin3:
  "gpio_dispatch example_defs example_hal example_pads (Some 0)
     (cmds [''gpio'', ''set'', ''porta'', ''pin3'']) [] example_terms
   = Inr (True, [PalSetPad GPIOA PIN3])"
  by (simp add: example_eval gpio_dispatch_def gpio_set_def gpio_get_port_pin_def)

section \<open>Properties of the emission functions of util_messages.c\<close>

text \<open>
  Claim C3. \<open>util_message_begin\<close> prints the one line \<open>BEGIN:\<close>, ended by CRLF;
  \<open>util_message_end\<close> prints exactly \<open>END:OK\<close> when its argument is true and exactly
  \<open>END:ERROR\<close> when it is false, each as one line ended by CRLF: one END line for each
  call that closes a transaction.
\<close>

theorem begin_end_lines:
  "util_message_begin chp = [ChBSemWait, Chprintf chp (''BEGIN:'' @ CRLF), ChBSemSignal]
   \<and> util_message_end chp success =
       [ChBSemWait, Chprintf chp ((if success then ''END:OK'' else ''END:ERROR'') @ CRLF),
        ChBSemSignal]
   \<and> crlf_lines [] (written c (util_message_begin (Some c))) = [Some ''BEGIN:'']
   \<and> crlf_lines [] (written c (util_message_end (Some c) success)) =
       [Some (if success then ''END:OK'' else ''END:ERROR'')]"
  by (simp add: util_message_begin_def util_message_end_def chprintf_def CRLF_def c_str_def)

theorem begin_end_lines_witness:
  "crlf_lines [] (written 0 (util_message_begin (Some 0))) = [Some ''BEGIN:'']
   \<and> crlf_lines [] (written 0 (util_message_end (Some 0) True)) = [Some ''END:OK'']
   \<and> crlf_lines [] (written 0 (util_message_end (Some 0) False)) = [Some ''END:ERROR'']"
  using begin_end_lines [where c = 0 and success = True and chp = "Some 0", unfolded if_True]
    begin_end_lines [where c = 0 and success = False and chp = "Some 0", unfolded if_False]
  by blast

text \<open>
  In a transaction framed as the spec has it, around a handler whose emissions are whole
  lines, the first line is \<open>BEGIN:\<close>, the last is the END line, and the lines between
  are those of the handler.
\<close>

lemma written_append: "written c (a @ b) = written c a @ written c b"
  by (induction c a rule: written.induct) simp_all

lemma crlf_lines_append:
  "None \<notin> set (crlf_lines cur s) \<Longrightarrow> crlf_lines cur (s @ t) = crlf_lines cur s @ crlf_lines [] t"
  by (induction cur s rule: crlf_lines.induct) (auto split: if_splits)

lemma transaction_lines:
  assumes "None \<notin> set (crlf_lines [] (written c body))"
  shows "crlf_lines [] (written c (transaction (Some c) (ok, body))) =
           Some ''BEGIN:'' # crlf_lines [] (written c body)
           @ [Some (if ok then ''END:OK'' else ''END:ERROR'')]"
  using assms
  by (simp add: transaction_def written_append crlf_lines_append util_message_begin_def
      util_message_end_def chprintf_def c_str_def CRLF_def)

text \<open>
  Claim C7. In the formatted emissions (info, warning, error, debug, string) a CRLF is
  appended if and only if the template does not end in a line feed or a carriage return:
  the template decides, not the text printed from it.
\<close>

theorem newline_decided_from_template:
  "util_message_info (Some c) (Some fmt) args =
     [ChBSemWait, Chprintf (Some c) ''#:'', Chprintf (Some c) (chvprintf_text (c_str fmt) args)]
     @ (if ends_in_line_terminator fmt then [] else [Chprintf (Some c) CRLF])
     @ [ChBSemSignal]
   \<and> util_message_warning (Some c) (Some fmt) args =
     [ChBSemWait, Chprintf (Some c) ''W:'', Chprintf (Some c) (chvprintf_text (c_str fmt) args)]
     @ (if ends_in_line_terminator fmt then [] else [Chprintf (Some c) CRLF])
     @ [ChBSemSignal]
   \<and> util_message_error (Some c) (Some fmt) args =
     [ChBSemWait, Chprintf (Some c) ''E:'', Chprintf (Some c) (chvprintf_text (c_str fmt) args)]
     @ (if ends_in_line_terminator fmt then [] else [Chprintf (Some c) CRLF])
     @ [ChBSemSignal]
   \<and> util_message_string (Some c) name (Some fmt) args =
     [ChBSemWait, Chprintf (Some c) (chvprintf_text ''S:%s:'' [ArgStr name]),
      Chprintf (Some c) (chvprintf_text (c_str fmt) args)]
     @ (if ends_in_line_terminator fmt then [] else [Chprintf (Some c) CRLF])
     @ [ChBSemSignal]
   \<and> util_message_debug (Some c) (Some src) line (Some func) (Some fmt) args =
     [ChBSemWait,
      Chprintf (Some c)
        (chvprintf_text ''?:%s:%d:%s:'' [ArgStr (Some src), ArgInt line, ArgStr (Some func)]),
      Chprintf (Some c) (chvprintf_text (c_str fmt) args)]
     @ (if ends_in_line_terminator fmt then [] else [Chprintf (Some c) CRLF])
     @ [ChBSemSignal]"
  by (simp add: util_message_info_def util_message_warning_def util_message_error_def
      util_message_string_def util_message_debug_def chprintf_def chvprintf_def
      needs_newline_iff CRLF_def c_str_def)

text \<open>
  A template without terminator whose text ends in CRLF gets a second CRLF; a template
  that ends in a line feed gets none.
\<close>

theorem newline_decided_from_template_witness:
  "util_message_info (Some 0) (Some ''%s'') [ArgStr (Some (''ok'' @ CRLF))] =
     [ChBSemWait, Chprintf (Some 0) ''#:'', Chprintf (Some 0) (''ok'' @ CRLF),
      Chprintf (Some 0) CRLF, ChBSemSignal]
   \<and> util_message_error (Some 0) (Some (''failed'' @ [LF])) [] =
     [ChBSemWait, Chprintf (Some 0) ''E:'', Chprintf (Some 0) (''failed'' @ [LF]),
      ChBSemSignal]"
  using
    newline_decided_from_template [where c = 0 and fmt = "''%s''"
      and args = "[ArgStr (Some (''ok'' @ CRLF))]"]
    newline_decided_from_template [where c = 0 and fmt = "''failed'' @ [LF]" and args = "[]"]
  by (simp add: ends_in_line_terminator_def c_str_def CRLF_def LF_def CR_def directive_def
      conversion_def fill_def isdigit_def dec_val_def)

lemma is_print_gate: "is_print e \<Longrightarrow> gate h (e # es) = gate h es"
  by (cases e) simp_all

lemma prints_then_signal_gate: "prints_then_signal es \<Longrightarrow> gate True es = Some False"
  by (induction es rule: prints_then_signal.induct) (auto simp: is_print_gate)

lemma locked_once_gate: "locked_once es \<Longrightarrow> gate False es = Some False"
  by (cases es) (auto simp: locked_once_def prints_then_signal_gate)

lemma prints_then_signal_append:
  "list_all is_print a \<Longrightarrow> prints_then_signal (a @ b) = prints_then_signal b"
proof (induction a)
  case Nil
  show ?case by simp
next
  case (Cons e a)
  then have e: "is_print e" and a: "list_all is_print a" by simp_all
  show ?case
  proof (cases "a @ b")
    case Nil
    with e show ?thesis by (cases e) auto
  next
    case (Cons x xs)
    with e Cons.IH [OF a] show ?thesis by simp
  qed
qed

lemma prints_chprintf: "list_all is_print (chprintf chp fmt args)"
  by (simp add: chprintf_def)

lemma prints_chvprintf: "list_all is_print (chvprintf chp fmt args)"
  by (simp add: chvprintf_def)

lemma prints_int_array_loop: "list_all is_print (int_array_loop chp fmt data n)"
  by (induction n arbitrary: data) (simp_all add: prints_chprintf)

lemma prints_string_array_loop: "list_all is_print (string_array_loop chp a count n)"
  by (induction n) (simp_all add: prints_chprintf Let_def)

lemma prints_double_loop: "list_all is_print (double_loop fmt_f dflt chp data count n)"
  by (induction n) (simp_all add: prints_chprintf Let_def)

lemmas prints =
  prints_chprintf prints_chvprintf prints_int_array_loop prints_string_array_loop
  prints_double_loop

lemma locked_once_simps:
  "locked_once []" "locked_once (ChBSemWait # r) = prints_then_signal r"
  by (simp_all add: locked_once_def)

lemmas locked_facts = locked_once_simps prints_then_signal_append prints

lemma locked_begin: "locked_once (util_message_begin chp)"
  by (simp add: util_message_begin_def locked_facts)

lemma locked_end: "locked_once (util_message_end chp success)"
  by (simp add: util_message_end_def locked_facts)

lemma locked_debug: "locked_once (util_message_debug chp src line func fmt args)"
  by (simp add: util_message_debug_def locked_facts split: option.splits)

lemma locked_info: "locked_once (util_message_info chp fmt args)"
  by (simp add: util_message_info_def locked_facts split: option.splits)

lemma locked_warning: "locked_once (util_message_warning chp fmt args)"
  by (simp add: util_message_warning_def locked_facts split: option.splits)

lemma locked_error: "locked_once (util_message_error chp fmt args)"
  by (simp add: util_message_error_def locked_facts split: option.splits)

lemma locked_bool: "locked_once (util_message_bool chp name data)"
  by (simp add: util_message_bool_def locked_facts)

lemma locked_string: "locked_once (util_message_string chp name fmt args)"
  by (simp add: util_message_string_def locked_facts split: option.splits)

lemma locked_string_array: "locked_once (util_message_string_array chp name str_array count)"
  by (simp add: util_message_string_array_def locked_facts)

lemma locked_double: "locked_once (util_message_double fmt_f dflt chp name data count)"
  by (simp add: util_message_double_def locked_facts)

lemma locked_int8: "locked_once (util_message_int8 chp name data8 count)"
  by (simp add: util_message_int8_def locked_facts)

lemma locked_uint8: "locked_once (util_message_uint8 chp name data8 count)"
  by (simp add: util_message_uint8_def locked_facts)

lemma locked_int16: "locked_once (util_message_int16 chp name data16 count)"
  by (simp add: util_message_int16_def locked_facts)

lemma locked_uint16: "locked_once (util_message_uint16 chp name data16 count)"
  by (simp add: util_message_uint16_def locked_facts)

lemma locked_int32: "locked_once (util_message_int32 chp name data32 count)"
  by (simp add: util_message_int32_def locked_facts)

lemma locked_uint32: "locked_once (util_message_uint32 chp name data32 count)"
  by (simp add: util_message_uint32_def locked_facts)

lemma locked_hex_uint8: "locked_once (util_message_hex_uint8 chp name data8 count)"
  by (simp add: util_message_hex_uint8_def locked_facts)

lemma locked_hex_uint16: "locked_once (util_message_hex_uint16 chp name data16 count)"
  by (simp add: util_message_hex_uint16_def locked_facts)

lemma locked_hex_uint32: "locked_once (util_message_hex_uint32 chp name data32 count)"
  by (simp add: util_message_hex_uint32_def locked_facts)

lemmas locked_all =
  locked_begin locked_end locked_debug locked_info locked_warning locked_error locked_bool
  locked_string locked_string_array locked_double locked_int8 locked_uint8 locked_int16
  locked_uint16 locked_int32 locked_uint32 locked_hex_uint8 locked_hex_uint16 locked_hex_uint32

text \<open>
  Claim C8. Every emission function that takes the output semaphore gives it back exactly
  once before it returns, on every path: the calls of each function are none at all, or
  the wait, then prints only, then the signal. The semaphore is free after every call
  that found it free.
\<close>

theorem semaphore_balanced:
  "(locked_once (util_message_begin chp) \<and> gate False (util_message_begin chp) = Some False)
   \<and> (locked_once (util_message_end chp success)
      \<and> gate False (util_message_end chp success) = Some False)
   \<and> (locked_once (util_message_debug chp src line func fmt args)
      \<and> gate False (util_message_debug chp src line func fmt args) = Some False)
   \<and> (locked_once (util_message_info chp fmt args)
      \<and> gate False (util_message_info chp fmt args) = Some False)
   \<and> (locked_once (util_message_warning chp fmt args)
      \<and> gate False (util_message_warning chp fmt args) = Some False)
   \<and> (locked_once (util_message_error chp fmt args)
      \<and> gate False (util_message_error chp fmt args) = Some False)
   \<and> (locked_once (util_message_bool chp name b)
      \<and> gate False (util_message_bool chp name b) = Some False)
   \<and> (locked_once (util_message_string chp name fmt args)
      \<and> gate False (util_message_string chp name fmt args) = Some False)
   \<and> (locked_once (util_message_string_array chp name str_array count)
      \<and> gate False (util_message_string_array chp name str_array count) = Some False)
   \<and> (locked_once (util_message_double fmt_f dflt chp name dataf count)
      \<and> gate False (util_message_double fmt_f dflt chp name dataf count) = Some False)
   \<and> (locked_once (util_message_int8 chp name data8 count)
      \<and> gate False (util_message_int8 chp name data8 count) = Some False)
   \<and> (locked_once (util_message_uint8 chp name data8 count)
      \<and> gate False (util_message_uint8 chp name data8 count) = Some False)
   \<and> (locked_once (util_message_int16 chp name data16 count)
      \<and> gate False (util_message_int16 chp name data16 count) = Some False)
   \<and> (locked_once (util_message_uint16 chp name data16 count)
      \<and> gate False (util_message_uint16 chp name data16 count) = Some False)
   \<and> (locked_once (util_message_int32 chp name data32 count)
      \<and> gate False (util_message_int32 chp name data32 count) = Some False)
   \<and> (locked_once (util_message_uint32 chp name data32 count)
      \<and> gate False (util_message_uint32 chp name data32 count) = Some False)
   \<and> (locked_once (util_message_hex_uint8 chp name data8 count)
      \<and> gate False (util_message_hex_uint8 chp name data8 count) = Some False)
   \<and> (locked_once (util_message_hex_uint16 chp name data16 count)
      \<and> gate False (util_message_hex_uint16 chp name data16 count) = Some False)
   \<and> (locked_once (util_message_hex_uint32 chp name data32 count)
      \<and> gate False (util_message_hex_uint32 chp name data32 count) = Some False)"
  by (simp only: locked_all locked_once_gate [OF locked_begin] locked_once_gate [OF locked_end]
      locked_once_gate [OF locked_debug] locked_once_gate [OF locked_info]
      locked_once_gate [OF locked_warning] locked_once_gate [OF locked_error]
      locked_once_gate [OF locked_bool] locked_once_gate [OF locked_string]
      locked_once_gate [OF locked_string_array] locked_once_gate [OF locked_double]
      locked_once_gate [OF locked_int8] locked_once_gate [OF locked_uint8]
      locked_once_gate [OF locked_int16] locked_once_gate [OF locked_uint16]
      locked_once_gate [OF locked_int32] locked_once_gate [OF locked_uint32]
      locked_once_gate [OF locked_hex_uint8] locked_once_gate [OF locked_hex_uint16]
      locked_once_gate [OF locked_hex_uint32] simp_thms)

theorem semaphore_balanced_witness:
  "locked_once (util_message_end (Some 0) False)
   \<and> gate False (util_message_uint16 (Some 0) (Some ''adc'') [1, 2] 2) = Some False
   \<and> gate False (util_message_error (Some 0) None []) = Some False"
  using
    semaphore_balanced [where chp = "Some 0" and success = False and name = "Some ''adc''"
      and ?data16.0 = "[1, 2]" and count = 2 and fmt = None and args = "[]"
      and src = None and line = 0 and func = None and b = True and str_array = "[]"
      and fmt_f = "\<lambda>x :: unit. []" and dflt = "()" and dataf = "[]" and ?data8.0 = "[]"
      and ?data32.0 = "[]"]
  by blast

text \<open>
  The emission functions that test the stream pointer do nothing when it is NULL, and the
  formatted ones nothing when the template is NULL.
\<close>

lemma null_stream_no_calls:
  "util_message_debug None src line func fmt args = []"
  "util_message_info None fmt args = []"
  "util_message_warning None fmt args = []"
  "util_message_error None fmt args = []"
  "util_message_bool None name b = []"
  "util_message_string None name fmt args = []"
  "util_message_string_array None name str_array count = []"
  "util_message_double fmt_f dflt None name dataf count = []"
  "util_message_int8 None name data8 count = []"
  "util_message_uint8 None name data8 count = []"
  "util_message_int16 None name data16 count = []"
  "util_message_uint16 None name data16 count = []"
  "util_message_int32 None name data32 count = []"
  "util_message_uint32 None name data32 count = []"
  "util_message_hex_uint8 None name data8 count = []"
  "util_message_hex_uint16 None name data16 count = []"
  "util_message_hex_uint32 None name data32 count = []"
  by (simp_all add: util_message_debug_def util_message_info_def util_message_warning_def
      util_message_error_def util_message_bool_def util_message_string_def
      util_message_string_array_def util_message_double_def util_message_int8_def
      util_message_uint8_def util_message_int16_def util_message_uint16_def
      util_message_int32_def util_message_uint32_def util_message_hex_uint8_def
      util_message_hex_uint16_def util_message_hex_uint32_def)

lemma null_template_no_calls:
  "util_message_debug chp src line func None args = []"
  "util_message_info chp None args = []"
  "util_message_warning chp None args = []"
  "util_message_error chp None args = []"
  "util_message_string chp name None args = []"
  by (simp_all add: util_message_debug_def util_message_info_def util_message_warning_def
      util_message_error_def util_message_string_def)

text \<open>
  Claim C10. Every emission function is to return at once when the stream pointer is
  NULL, without a print and without touching the semaphore. \<open>util_message_begin\<close> and
  \<open>util_message_end\<close> do not test the pointer: with NULL they wait on the semaphore,
  call \<open>chprintf\<close> on the NULL stream and signal the semaphore.
\<close>

theorem begin_end_null_stream:
  "util_message_begin None = [ChBSemWait, Chprintf None (''BEGIN:'' @ CRLF), ChBSemSignal]
   \<and> util_message_end None True = [ChBSemWait, Chprintf None (''END:OK'' @ CRLF), ChBSemSignal]
   \<and> util_message_end None False =
       [ChBSemWait, Chprintf None (''END:ERROR'' @ CRLF), ChBSemSignal]"
  by (simp add: util_message_begin_def util_message_end_def chprintf_def CRLF_def c_str_def)

lemma int_array_loop_numeral:
  "int_array_loop chp fmt data (numeral n) =
     chprintf chp fmt [ArgInt (elem 0 data 0)]
     @ (if numeral n > (1::nat) then chprintf chp '','' [] else [])
     @ int_array_loop chp fmt (tl data) (pred_numeral n)"
  by (simp add: numeral_eq_Suc)

text \<open>The integer arrays printed with \<open>%u\<close> show every element as the number it is.\<close>

lemma util_message_uint16_largest:
  "util_message_uint16 (Some 0) (Some ''x'') [0xFFFF, 7] 2 =
     [ChBSemWait, Chprintf (Some 0) ''U16:x:'', Chprintf (Some 0) ''65535'',
      Chprintf (Some 0) '','', Chprintf (Some 0) ''7'', Chprintf (Some 0) CRLF, ChBSemSignal]"
  by (simp add: util_message_uint16_def chprintf_def directive_def conversion_def fill_def
      elem_def ltoa.simps digit_char_def isdigit_def dec_val_def c_str_def CRLF_def
      int_array_loop_numeral)

text \<open>
  Claim C6. Every element of an unsigned array is to be printed as its unsigned decimal
  value. \<open>util_message_uint32\<close> prints with \<open>%d\<close>: an element above \<open>2^31 - 1\<close> comes out
  negative, here \<open>4294967295\<close> as \<open>-1\<close> and \<open>3000000000\<close> as \<open>-1294967296\<close>.
\<close>

theorem util_message_uint32_prints_signed:
  "util_message_uint32 (Some 0) (Some ''x'') [0xFFFFFFFF, 3000000000] 2 =
     [ChBSemWait, Chprintf (Some 0) ''U32:x:'', Chprintf (Some 0) ''-1'',
      Chprintf (Some 0) '','', Chprintf (Some 0) ''-1294967296'', Chprintf (Some 0) CRLF,
      ChBSemSignal]"
  by (simp add: util_message_uint32_def chprintf_def directive_def conversion_def fill_def
      elem_def ltoa.simps digit_char_def isdigit_def dec_val_def c_str_def CRLF_def
      int_array_loop_numeral)

section \<open>Properties of the DAC handlers of fetch_dac.c\<close>

lemma fetch_input_check_cases:
  "fetch_input_check chp cmd_list n data_list m = (True, []) \<and> length data_list = m
   \<or> (\<exists>msg. fetch_input_check chp cmd_list n data_list m =
         (False, util_message_error chp (Some msg) []))"
proof (cases "list_ex (\<lambda>i. cmd_list i = None) [0..<n]")
  case True
  then have "fetch_input_check chp cmd_list n data_list m =
      (False, util_message_error chp (Some ''missing command token'') [])"
    by (simp add: fetch_input_check_def)
  then show ?thesis by blast
next
  case False
  note tokens = this
  show ?thesis
  proof (cases "length data_list = m")
    case True
    with tokens show ?thesis by (simp add: fetch_input_check_def)
  next
    case False
    with tokens have "fetch_input_check chp cmd_list n data_list m =
        (False, util_message_error chp (Some ''wrong number of arguments'') [])"
      by (simp add: fetch_input_check_def)
    then show ?thesis by blast
  qed
qed

lemma fetch_input_check_ok:
  "\<forall>i<n. cmd_list i \<noteq> None \<Longrightarrow> length data_list = m \<Longrightarrow>
     fetch_input_check chp cmd_list n data_list m = (True, [])"
  by (simp add: fetch_input_check_def list_ex_iff)

lemma dac_ops_error: "dac_ops (util_message_error chp fmt args) = []"
  by (simp add: dac_ops_def util_message_error_def chprintf_def chvprintf_def split: option.splits)

lemma write_bad_channel:
  assumes "fetch_input_check chp cmd_list (FETCH_TOK_SUBCMD_0 d) data_list 2 = (True, [])"
    and "data_list = [a0, a1]" and "char_at0 (snd (strtol a0)) \<noteq> CHR 0x00"
  shows "fetch_dac_write_cmd d chp cmd_list data_list =
           Inr (False, util_message_error chp (Some ''invalid channel'') [])"
proof -
  obtain channel endptr where "strtol a0 = (channel, endptr)"
    by (cases "strtol a0")
  with assms show ?thesis
    by (simp add: fetch_dac_write_cmd_def data_at_def)
qed

lemma write_bad_value:
  assumes "fetch_input_check chp cmd_list (FETCH_TOK_SUBCMD_0 d) data_list 2 = (True, [])"
    and "data_list = [a0, a1]" and "char_at0 (snd (strtol a0)) = CHR 0x00"
    and "char_at0 (snd (strtol a1)) \<noteq> CHR 0x00"
  shows "fetch_dac_write_cmd d chp cmd_list data_list =
           Inr (False, util_message_error chp (Some ''invalid value'') [])"
proof -
  obtain channel endptr where "strtol a0 = (channel, endptr)"
    by (cases "strtol a0")
  moreover obtain v endptr' where "strtol a1 = (v, endptr')"
    by (cases "strtol a1")
  ultimately show ?thesis
    using assms by (simp add: fetch_dac_write_cmd_def data_at_def)
qed

lemma write_check_failed:
  assumes "fetch_input_check chp cmd_list (FETCH_TOK_SUBCMD_0 d) data_list 2 = (False, es)"
  shows "fetch_dac_write_cmd d chp cmd_list data_list = Inr (False, es)"
  using assms by (simp add: fetch_dac_write_cmd_def)

lemma util_message_error_invalid:
  "util_message_error (Some c) (Some ''invalid channel'') [] =
     [ChBSemWait, Chprintf (Some c) ''E:'', Chprintf (Some c) ''invalid channel'',
      Chprintf (Some c) CRLF, ChBSemSignal]"
  "util_message_error (Some c) (Some ''invalid value'') [] =
     [ChBSemWait, Chprintf (Some c) ''E:'', Chprintf (Some c) ''invalid value'',
      Chprintf (Some c) CRLF, ChBSemSignal]"
  by (simp_all add: util_message_error_def chprintf_def chvprintf_def needs_newline_iff
      ends_in_line_terminator_def c_str_def CRLF_def LF_def CR_def)

text \<open>
  Claim C5. When an argument handed to the DAC write handler has characters left after
  the number (\<open>endptr\<close> does not reach the terminating NUL), the handler returns false
  without any call to the DAC or SPI drivers; with the two arguments the handler expects
  it emits \<open>invalid channel\<close> when the first argument is the one with characters left,
  else \<open>invalid value\<close>. No number is taken from the digits in front.
\<close>

theorem trailing_characters_rejected:
  assumes "a \<in> set data_list" and "char_at0 (snd (strtol a)) \<noteq> CHR 0x00"
  shows "(\<exists>es. fetch_dac_write_cmd d chp cmd_list data_list = Inr (False, es) \<and> dac_ops es = [])
    \<and> ((\<forall>i < FETCH_TOK_SUBCMD_0 d. cmd_list i \<noteq> None) \<and> length data_list = 2 \<longrightarrow>
         fetch_dac_write_cmd d chp cmd_list data_list =
           Inr (False, util_message_error chp
             (Some (if char_at0 (snd (strtol (data_list ! 0))) \<noteq> CHR 0x00 then ''invalid channel''
                    else ''invalid value'')) []))"
proof -
  have specific: "fetch_dac_write_cmd d chp cmd_list data_list =
           Inr (False, util_message_error chp
             (Some (if char_at0 (snd (strtol (data_list ! 0))) \<noteq> CHR 0x00 then ''invalid channel''
                    else ''invalid value'')) [])"
    if ok: "fetch_input_check chp cmd_list (FETCH_TOK_SUBCMD_0 d) data_list 2 = (True, [])"
      and len: "length data_list = 2"
  proof -
    from len obtain a0 a1 where dl: "data_list = [a0, a1]"
      by (cases data_list; cases "tl data_list") auto
    show ?thesis
    proof (cases "char_at0 (snd (strtol a0)) \<noteq> CHR 0x00")
      case True
      with write_bad_channel [OF ok dl] dl show ?thesis by simp
    next
      case False
      with assms dl have "char_at0 (snd (strtol a1)) \<noteq> CHR 0x00" by auto
      with False write_bad_value [OF ok dl] dl show ?thesis by simp
    qed
  qed
  have general: "\<exists>es. fetch_dac_write_cmd d chp cmd_list data_list = Inr (False, es) \<and> dac_ops es = []"
    using fetch_input_check_cases [of chp cmd_list "FETCH_TOK_SUBCMD_0 d" data_list 2]
  proof (elim disjE conjE exE)
    assume "fetch_input_check chp cmd_list (FETCH_TOK_SUBCMD_0 d) data_list 2 = (True, [])"
      and "length data_list = 2"
    then show ?thesis using specific by (simp add: dac_ops_error)
  next
    fix msg
    assume "fetch_input_check chp cmd_list (FETCH_TOK_SUBCMD_0 d) data_list 2 =
      (False, util_message_error chp (Some msg) [])"
    from write_check_failed [OF this] show ?thesis by (simp add: dac_ops_error)
  qed
  from general specific fetch_input_check_ok show ?thesis by blast
qed

theorem trailing_characters_rejected_witness:
  "''12abc'' \<in> set [''12abc'', ''100'']
   \<and> char_at0 (snd (strtol ''12abc'')) \<noteq> CHR 0x00
   \<and> fetch_dac_write_cmd example_defs (Some 0) (cmds [''dac'', ''write'']) [''12abc'', ''100'']
       = Inr (False,
           [ChBSemWait, Chprintf (Some 0) ''E:'', Chprintf (Some 0) ''invalid channel'',
            Chprintf (Some 0) CRLF, ChBSemSignal])"
proof -
  have m: "''12abc'' \<in> set [''12abc'', ''100'']"
    by simp
  have e: "char_at0 (snd (strtol ''12abc'')) \<noteq> CHR 0x00"
    by code_simp
  have t: "\<forall>i < FETCH_TOK_SUBCMD_0 example_defs. cmds [''dac'', ''write''] i \<noteq> None"
    by (simp add: example_defs_def cmds_def)
  from m e t
    trailing_characters_rejected [OF m e, where d = example_defs and chp = "Some 0"
      and cmd_list = "cmds [''dac'', ''write'']"]
  show ?thesis by (simp add: util_message_error_invalid)
qed

text \<open>
  Claim C4. A DAC write whose channel or value is out of range is to return failure and
  to emit a diagnostic. For channel 9 the handler does both. For channel 0 and the value
  4096 it returns false and emits nothing; the value 65536 is cut to 16 bits when it is
  passed on, so that 0 is written to channel 0 and the handler returns true.
\<close>

theorem dac_write_value_out_of_range:
  "fetch_dac_write_cmd example_defs (Some 0) (cmds [''dac'', ''write'']) [''9'', ''100''] =
     Inr (False, [ChBSemWait, Chprintf (Some 0) ''E:'', Chprintf (Some 0) ''invalid channel'',
        Chprintf (Some 0) CRLF, ChBSemSignal])
   \<and> fetch_dac_write_cmd example_defs (Some 0) (cmds [''dac'', ''write'']) [''0'', ''4096''] =
     Inr (False, [])
   \<and> fetch_dac_write_cmd example_defs (Some 0) (cmds [''dac'', ''write'']) [''0'', ''65536''] =
     Inr (True, [SpiSelect, SpiSend 2 [0x10, 0], SpiUnselect])"
  by code_simp

lemma dac_write_in_range:
  "fetch_dac_write_cmd example_defs (Some 0) (cmds [''dac'', ''write'']) [''4'', ''2048''] =
     Inr (True, [DacPutChannelX 0 2048])"
  "fetch_dac_write_cmd example_defs (Some 0) (cmds [''dac'', ''write'']) [''1'', ''0x123''] =
     Inr (True, [SpiSelect, SpiSend 2 [0x51, 0x23], SpiUnselect])"
  by code_simp+

text \<open>
  Claim C9. \<open>fetch_dac_init\<close> is idempotent: once a call has set the flag, every later
  call returns the state as it is, with no call to a driver and no reset of an output;
  any number of calls leaves the state one call leaves.
\<close>

theorem fetch_dac_init_idempotent:
  "fetch_dac_init k chp' (fetch_dac_init k chp s) = fetch_dac_init k chp s
   \<and> (fetch_dac_init k chp ^^ Suc n) s = fetch_dac_init k chp s
   \<and> dac_init_flag (fetch_dac_init k chp s)"
proof -
  have flag: "dac_init_flag (fetch_dac_init k c t)" for c t
    by (simp add: fetch_dac_init_def Let_def)
  have again: "fetch_dac_init k c' (fetch_dac_init k c t) = fetch_dac_init k c t" for c c' t
    using flag [of c t] by (simp add: fetch_dac_init_def [of k c'])
  have "(fetch_dac_init k chp ^^ Suc n) s = fetch_dac_init k chp s"
    by (induction n) (simp_all add: again)
  with flag again show ?thesis by blast
qed

theorem fetch_dac_init_idempotent_witness:
  "(fetch_dac_init example_hal (Some 0) ^^ 3)
      \<lparr>dac_init_flag = False,
       dac1_cfg = \<lparr>init = 0, datamode = 0\<rparr>,
       spi4_cfg = \<lparr>end_cb = None, ssport = None, sspad = 0, cr1 = 0\<rparr>,
       driver_calls = []\<rparr>
   = fetch_dac_init example_hal (Some 0)
      \<lparr>dac_init_flag = False,
       dac1_cfg = \<lparr>init = 0, datamode = 0\<rparr>,
       spi4_cfg = \<lparr>end_cb = None, ssport = None, sspad = 0, cr1 = 0\<rparr>,
       driver_calls = []\<rparr>"
  using fetch_dac_init_idempotent [where n = "Suc (Suc 0)" and k = example_hal and chp = "Some 0"]
  by (simp only: numeral_3_eq_3)

text \<open>The first call starts both drivers and resets the five outputs.\<close>

lemma fetch_dac_init_first_call:
  "driver_calls (fetch_dac_init example_hal (Some 0)
      \<lparr>dac_init_flag = False,
       dac1_cfg = \<lparr>init = 0, datamode = 0\<rparr>,
       spi4_cfg = \<lparr>end_cb = None, ssport = None, sspad = 0, cr1 = 0\<rparr>,
       driver_calls = []\<rparr>)
   = [DacStart \<lparr>init = 0, datamode = 0\<rparr>,
      SpiStart \<lparr>end_cb = None, ssport = Some GPIOE, sspad = 4, cr1 = 1\<rparr>,
      DacPutChannelX 0 0,
      SpiSelect, SpiSend 2 [0x10, 0], SpiUnselect,
      SpiSelect, SpiSend 2 [0x50, 0], SpiUnselect,
      SpiSelect, SpiSend 2 [0x90, 0], SpiUnselect,
      SpiSelect, SpiSend 2 [0xD0, 0], SpiUnselect]"
  by code_simp

end
